(* ===== verification/Prelude.thy ===== *)
theory Prelude
  imports Main "HOL-Library.Sublist"
begin

text \<open>
  Shared vocabulary of the development: the collections of rewrite rules the
  component theories fill, the type names of the model, and generic lemmas on
  lists, options and maps that several components use.
\<close>

section \<open>Rule collections\<close>

named_theorems py_simps
  "evaluation rules of the Python runtime model (int, str.split, str of values)"

named_theorems trace_simps
  "how each modelled I/O operation extends the world's output trace"

section \<open>Names of the model's types\<close>

text \<open>A URL and an HTTP header, as the script builds them with f-strings.\<close>

type_synonym url = string
type_synonym header = "string \<times> string"

text \<open>The process environment \<open>os.environ\<close>: a partial map from names to values.\<close>

type_synonym env = "string \<rightharpoonup> string"

section \<open>Generic lemmas on lists\<close>

lemma dropWhile_no_match [simp]:
  "\<forall>x \<in> set xs. \<not> P x \<Longrightarrow> dropWhile P xs = xs"
  by (induction xs) auto

text \<open>A loop body returns \<open>Inr ()\<close>; its \<open>case\<close> on the unit value reduces.\<close>

declare case_unit_Unity [simp]

end
