(* ===== verification/PyRuntime.thy ===== *)
theory PyRuntime
  imports Prelude
begin

text \<open>
  The parts of the Python runtime that \<open>src/create_yom_tov_rules.py\<close> calls and
  whose behaviour its results depend on: \<open>int()\<close> on a \<open>str\<close> (line 62),
  \<open>str.split('-')\<close> (line 62), the f-string rendering of an \<open>int\<close>, of \<open>None\<close>
  and of the values \<open>json.loads\<close> returns (lines 36, 51, 59, 138, 140, 166-175),
  truthiness of a \<open>str | None\<close> (lines 13, 165, 168, 172), and dictionary lookup
  on decoded JSON objects (lines 42-43, 137).

  A Python \<open>str\<close> is a list of code points; the model uses \<open>string\<close>, a list of
  8-bit \<open>char\<close>s, so it covers the strings whose code points are below 256
  (Latin-1). The runtime modelled is CPython 3.11 or later: \<open>int()\<close> refuses more
  than 4300 digits (\<open>sys.int_info.default_max_str_digits\<close>).
\<close>

section \<open>Characters\<close>

text \<open>
  The characters \<open>int()\<close> strips around its argument, on code points below 256.
  CPython's \<open>_PyUnicode_TransformDecimalAndSpaceToASCII\<close> copies every code
  point below 128 unchanged and turns the other Unicode whitespace, NEXT LINE (133)
  and NO-BREAK SPACE (160), into a blank; \<open>PyLong_FromString\<close> then skips the C
  \<open>isspace\<close> characters, 9-13 and 32. The separators 28-31, which \<open>str.isspace\<close>
  accepts, are not stripped: \<open>int('\x1c1')\<close> raises \<open>ValueError\<close>.
\<close>

definition py_isspace :: "char \<Rightarrow> bool" where
  "py_isspace c \<longleftrightarrow> of_char c \<in> ({9..13} \<union> {32} \<union> {133, 160} :: nat set)"

definition is_digit :: "char \<Rightarrow> bool" where
  "is_digit c \<longleftrightarrow> of_char c \<in> ({48..57} :: nat set)"

definition digit_val :: "char \<Rightarrow> nat" where
  "digit_val c = of_char c - 48"

definition digit_char :: "nat \<Rightarrow> char" where
  "digit_char d = char_of (48 + d)"

section \<open>int() on a str\<close>

text \<open>
  CPython's \<open>PyLong_FromString\<close> in base 10 accepts
  \<open>ws* [+-]? digit (_? digit)* ws*\<close>. After the first digit, \<open>int_digits\<close>
  reads the rest: an underscore must be followed by a digit.
\<close>

fun int_digits :: "nat \<Rightarrow> string \<Rightarrow> nat option" where
  "int_digits acc [] = Some acc"
| "int_digits acc (c # cs) =
     (if is_digit c then int_digits (10 * acc + digit_val c) cs
      else if c = CHR ''_'' then
        (case cs of
           d # ds \<Rightarrow> if is_digit d then int_digits (10 * acc + digit_val d) ds else None
         | [] \<Rightarrow> None)
      else None)"

definition py_strip :: "string \<Rightarrow> string" where
  "py_strip s = rev (dropWhile py_isspace (rev (dropWhile py_isspace s)))"

definition max_str_digits :: nat where
  "max_str_digits = 4300"

definition unsigned_int :: "string \<Rightarrow> int option" where
  "unsigned_int s =
     (case s of
        d # ds \<Rightarrow>
          if is_digit d \<and> length (filter is_digit s) \<le> max_str_digits
          then map_option int (int_digits (digit_val d) ds) else None
      | [] \<Rightarrow> None)"

text \<open>\<open>int(s)\<close>: \<open>None\<close> is the \<open>ValueError\<close> it raises.\<close>

definition py_int :: "string \<Rightarrow> int option" where
  "py_int s =
     (case py_strip s of
        [] \<Rightarrow> None
      | c # cs \<Rightarrow>
          if c = CHR ''+'' then unsigned_int cs
          else if c = CHR ''-'' then map_option uminus (unsigned_int cs)
          else unsigned_int (c # cs))"

section \<open>str.split with a one-character separator\<close>

text \<open>
  \<open>s.split(sep)\<close> with an explicit separator cuts at every occurrence and keeps
  empty pieces: \<open>'a--b'.split('-') == ['a', '', 'b']\<close>, \<open>''.split('-') == ['']\<close>.
  \<open>split_acc\<close> is the scanning loop with the current piece reversed in \<open>cur\<close>.
\<close>

fun split_acc :: "char \<Rightarrow> string \<Rightarrow> string \<Rightarrow> string list" where
  "split_acc sep cur [] = [rev cur]"
| "split_acc sep cur (c # cs) =
     (if c = sep then rev cur # split_acc sep [] cs else split_acc sep (c # cur) cs)"

definition py_split :: "char \<Rightarrow> string \<Rightarrow> string list" where
  "py_split sep s = split_acc sep [] s"

text \<open>\<open>sep.join(parts)\<close>, the inverse the roundtrip lemmas are stated with.\<close>

fun py_join :: "string \<Rightarrow> string list \<Rightarrow> string" where
  "py_join sep [] = []"
| "py_join sep [x] = x"
| "py_join sep (x # xs) = x @ sep @ py_join sep xs"

section \<open>str() of an int\<close>

fun dec_nat :: "nat \<Rightarrow> string" where
  "dec_nat n = (if n < 10 then [digit_char n] else dec_nat (n div 10) @ [digit_char (n mod 10)])"

declare dec_nat.simps [simp del]

definition py_str_int :: "int \<Rightarrow> string" where
  "py_str_int i = (if i < 0 then CHR ''-'' # dec_nat (nat (- i)) else dec_nat (nat i))"

section \<open>Values returned by json.loads\<close>

text \<open>
  A decoded JSON document is a Python value: \<open>None\<close>, a \<open>bool\<close>, an \<open>int\<close>, a
  \<open>str\<close>, a \<open>list\<close> or a \<open>dict\<close>. A \<open>JObj\<close> lists the dict's items in
  insertion order (its keys are distinct, \<open>json.loads\<close> keeps the last of
  repeated keys). JSON numbers with a fraction or exponent (Python \<open>float\<close>) are
  not modelled.
\<close>

datatype json =
    JNull
  | JBool bool
  | JInt int
  | JStr string
  | JList "json list"
  | JObj "(string \<times> json) list"

text \<open>\<open>d[k]\<close> and \<open>d.get(k)\<close> on a decoded dict.\<close>

definition obj_get :: "(string \<times> json) list \<Rightarrow> string \<Rightarrow> json option" where
  "obj_get kvs k = map_of kvs k"

text \<open>\<open>type(v).__name__\<close>, which CPython puts into \<open>AttributeError\<close> messages.\<close>

fun py_type_name :: "json \<Rightarrow> string" where
  "py_type_name JNull = ''NoneType''"
| "py_type_name (JBool _) = ''bool''"
| "py_type_name (JInt _) = ''int''"
| "py_type_name (JStr _) = ''str''"
| "py_type_name (JList _) = ''list''"
| "py_type_name (JObj _) = ''dict''"

subsection \<open>repr and str\<close>

text \<open>
  \<open>repr\<close> of a \<open>str\<close> (CPython \<open>unicode_repr\<close>): single quotes unless the
  text holds a single quote and no double quote; the quote and the backslash
  are escaped, tab, newline and return become \<open>\t\<close>, \<open>\n\<close>, \<open>\r\<close>, other
  unprintable code points \<open>\xhh\<close>. Below 256 the printable ones are 32-126
  and 161-255 without the soft hyphen 173.
\<close>

definition hex_digit :: "nat \<Rightarrow> char" where
  "hex_digit d = (if d < 10 then char_of (48 + d) else char_of (87 + d))"

definition py_printable :: "char \<Rightarrow> bool" where
  "py_printable c \<longleftrightarrow>
     (let n = (of_char c :: nat) in (32 \<le> n \<and> n < 127) \<or> (161 \<le> n \<and> n \<noteq> 173))"

definition repr_char :: "char \<Rightarrow> char \<Rightarrow> string" where
  "repr_char q c =
     (if c = q \<or> c = CHR 0x5C then [CHR 0x5C, c]
      else if c = CHR 0x09 then [CHR 0x5C, CHR ''t'']
      else if c = CHR 0x0A then [CHR 0x5C, CHR ''n'']
      else if c = CHR 0x0D then [CHR 0x5C, CHR ''r'']
      else if \<not> py_printable c then
        [CHR 0x5C, CHR ''x'', hex_digit (of_char c div 16), hex_digit (of_char c mod 16)]
      else [c])"

definition py_repr_str :: "string \<Rightarrow> string" where
  "py_repr_str s =
     (let q = (if CHR 0x27 \<in> set s \<and> CHR 0x22 \<notin> set s then CHR 0x22 else CHR 0x27)
      in q # concat (map (repr_char q) s) @ [q])"

fun py_repr :: "json \<Rightarrow> string" where
  "py_repr JNull = ''None''"
| "py_repr (JBool b) = (if b then ''True'' else ''False'')"
| "py_repr (JInt i) = py_str_int i"
| "py_repr (JStr s) = py_repr_str s"
| "py_repr (JList xs) = ''['' @ py_join '', '' (map py_repr xs) @ '']''"
| "py_repr (JObj kvs) =
     ''{'' @ py_join '', '' (map (\<lambda>(k, v). py_repr_str k @ '': '' @ py_repr v) kvs) @ ''}''"

text \<open>\<open>str(v)\<close>, i.e. \<open>f"{v}"\<close>: a \<open>str\<close> is itself, everything else its repr.\<close>

fun py_str :: "json \<Rightarrow> string" where
  "py_str (JStr s) = s"
| "py_str v = py_repr v"

section \<open>Values of type str | None\<close>

text \<open>
  \<open>os.environ.get\<close> and \<open>csv.DictReader\<close> yield a \<open>str\<close> or \<open>None\<close>.
  \<open>truthy_val x\<close> is \<open>Some s\<close> exactly when \<open>x\<close> is a non-empty string \<open>s\<close>,
  i.e. when \<open>bool(x)\<close> holds; \<open>py_fmt_opt\<close> is \<open>f"{x}"\<close>.
\<close>

fun truthy_val :: "string option \<Rightarrow> string option" where
  "truthy_val None = None"
| "truthy_val (Some s) = (if s = [] then None else Some s)"

definition py_truthy :: "string option \<Rightarrow> bool" where
  "py_truthy x \<longleftrightarrow> truthy_val x \<noteq> None"

fun py_fmt_opt :: "string option \<Rightarrow> string" where
  "py_fmt_opt None = ''None''"
| "py_fmt_opt (Some s) = s"

text \<open>
  A text between single quotes, as the f-strings \<open>'{name}'\<close> write it (a
  single quote cannot appear inside an Isabelle string literal).
\<close>

abbreviation quoted :: "string \<Rightarrow> string" where
  "quoted s \<equiv> CHR 0x27 # s @ [CHR 0x27]"

text \<open>\<open>dec_step\<close> is one step of reading a decimal numeral left to right.\<close>

abbreviation dec_step :: "nat \<Rightarrow> char \<Rightarrow> nat" where
  "dec_step a c \<equiv> 10 * a + digit_val c"

section \<open>Lemmas\<close>

subsection \<open>Digits\<close>

lemma is_digit_digit_char [py_simps]: "d < 10 \<Longrightarrow> is_digit (digit_char d)"
  and digit_val_digit_char [py_simps]: "d < 10 \<Longrightarrow> digit_val (digit_char d) = d"
  by (simp_all add: is_digit_def digit_val_def digit_char_def)

lemma is_digit_not_special [py_simps]:
  "is_digit c \<Longrightarrow> \<not> py_isspace c \<and> c \<noteq> CHR ''+'' \<and> c \<noteq> CHR ''-'' \<and> c \<noteq> CHR ''_''"
  by (auto simp: is_digit_def py_isspace_def)

lemma py_strip_id: "\<forall>c \<in> set s. \<not> py_isspace c \<Longrightarrow> py_strip s = s"
  by (simp add: py_strip_def)

lemma int_digits_all_digits:
  "\<forall>c \<in> set cs. is_digit c \<Longrightarrow> int_digits acc cs = Some (foldl dec_step acc cs)"
  by (induction cs arbitrary: acc) auto

lemma dec_nat_nonempty [simp]: "dec_nat n \<noteq> []"
  by (subst dec_nat.simps) simp

lemma dec_nat_digits: "\<forall>c \<in> set (dec_nat n). is_digit c"
proof (induction n rule: dec_nat.induct)
  case (1 n)
  then show ?case
    by (cases "n < 10") (auto simp: dec_nat.simps [of n] py_simps)
qed

lemma dec_nat_value: "foldl dec_step 0 (dec_nat n) = n"
proof (induction n rule: dec_nat.induct)
  case (1 n)
  show ?case
  proof (cases "n < 10")
    case True
    then show ?thesis by (simp add: dec_nat.simps [of n] py_simps)
  next
    case False
    with "1.IH" show ?thesis by (simp add: dec_nat.simps [of n] py_simps)
  qed
qed

subsection \<open>str.split and str.join\<close>

lemma split_acc_nonempty [simp]: "split_acc sep cur s \<noteq> []"
  by (induction s arbitrary: cur) auto

lemma py_join_Cons_nonempty:
  "xs \<noteq> [] \<Longrightarrow> py_join sep (x # xs) = x @ sep @ py_join sep xs"
  by (cases xs) auto

lemma py_join_split_acc: "py_join [sep] (split_acc sep cur s) = rev cur @ s"
  by (induction s arbitrary: cur) (auto simp: py_join_Cons_nonempty)

lemma split_acc_append_nosep:
  "sep \<notin> set x \<Longrightarrow> split_acc sep cur (x @ rest) = split_acc sep (rev x @ cur) rest"
  by (induction x arbitrary: cur) auto

lemma split_acc_py_join:
  "\<forall>p \<in> set ps. sep \<notin> set p \<Longrightarrow> ps \<noteq> [] \<Longrightarrow>
   split_acc sep cur (py_join [sep] ps) = (rev cur @ hd ps) # tl ps"
proof (induction ps arbitrary: cur)
  case (Cons x xs)
  show ?case
  proof (cases xs)
    case Nil
    with Cons.prems show ?thesis
      by (simp add: split_acc_append_nosep [where rest = "[]", simplified])
  next
    case (Cons y ys)
    with Cons.prems Cons.IH [of "[]"] show ?thesis
      by (simp add: split_acc_append_nosep)
  qed
qed simp

lemma py_split_py_join:
  "\<forall>p \<in> set ps. sep \<notin> set p \<Longrightarrow> ps \<noteq> [] \<Longrightarrow> py_split sep (py_join [sep] ps) = ps"
  by (simp add: py_split_def split_acc_py_join)

lemma py_join_py_split: "py_join [sep] (py_split sep s) = s"
  by (simp add: py_split_def py_join_split_acc)

lemma split_acc_nosep:
  "sep \<notin> set cur \<Longrightarrow> list_all (\<lambda>p. sep \<notin> set p) (split_acc sep cur s)"
  by (induction s arbitrary: cur) auto

end
