(* ===== verification/Io.thy ===== *)
theory Io
  imports PyRuntime
begin

text \<open>
  The outside world of the script as explicit state. The script's observable
  behaviour is the sequence of its effects: lines printed, HTTP requests sent
  through \<open>requests.get\<close>/\<open>requests.post\<close>, and \<open>time.sleep\<close> calls. The
  \<open>world\<close> record holds that sequence (\<open>out\<close>, in order) and the server's
  answers: \<open>get_reply\<close> is the answer to the one GET the script sends,
  \<open>post_reply n\<close> the answer to its \<open>n\<close>-th POST (counted from 0 in \<open>posts\<close>).
  Any server behaviour on a run is one such choice of answers, so results stated
  for all worlds hold for every server.

  Python exceptions are values of \<open>pyexc\<close>: the class that matters to the
  script's handlers and the text \<open>str(e)\<close>. \<open>SystemExit\<close> is raised by
  \<open>sys.exit\<close> and, being a \<open>BaseException\<close>, passes \<open>except Exception\<close>.
\<close>

section \<open>Exceptions\<close>

datatype exc_kind = KeyError | TypeError | AttributeError | FileNotFoundError | OSError | CsvError

datatype pyexc = PyError exc_kind string | SystemExit int

section \<open>HTTP replies\<close>

text \<open>
  What a \<open>requests\<close> call gives back: either it raises a
  \<open>RequestException\<close> (with its text), or it returns a response with
  \<open>status_code\<close>, \<open>text\<close> and the outcome of \<open>response.json()\<close>: the decoded
  value, or the text of the \<open>JSONDecodeError\<close> it raises. With \<open>requests\<close>
  2.27 or later that error is both a \<open>ValueError\<close> and a \<open>RequestException\<close>.
  The JSON decoder itself is not modelled: the reply carries its outcome.
\<close>

datatype http_reply =
    HttpError string
  | HttpResponse int string "string + json"

section \<open>Effects and the world\<close>

datatype effect =
    Print string
  | HttpGet url "header list"
  | HttpPost url "header list" json
  | Sleep nat
  | Traceback pyexc

record world =
  out :: "effect list"
  get_reply :: http_reply
  post_reply :: "nat \<Rightarrow> http_reply"
  posts :: nat

definition emit :: "effect \<Rightarrow> world \<Rightarrow> world" where
  "emit e w = w\<lparr>out := out w @ [e]\<rparr>"

text \<open>\<open>print(s)\<close>: one line of output (without its newline).\<close>

definition py_print :: "string \<Rightarrow> world \<Rightarrow> world" where
  "py_print s w = emit (Print s) w"

definition time_sleep :: "nat \<Rightarrow> world \<Rightarrow> world" where
  "time_sleep n w = emit (Sleep n) w"

text \<open>
  \<open>requests.get(url, headers=hs)\<close> and \<open>requests.post(url, json=body,
  headers=hs)\<close>: the request is sent (an effect, also when the call then raises)
  and the reply is the server's answer.
\<close>

definition requests_get :: "url \<Rightarrow> header list \<Rightarrow> world \<Rightarrow> http_reply \<times> world" where
  "requests_get u hs w = (get_reply w, emit (HttpGet u hs) w)"

definition requests_post :: "url \<Rightarrow> header list \<Rightarrow> json \<Rightarrow> world \<Rightarrow> http_reply \<times> world" where
  "requests_post u hs body w =
     (post_reply w (posts w), (emit (HttpPost u hs body) w)\<lparr>posts := Suc (posts w)\<rparr>)"

section \<open>Trace predicates\<close>

fun is_post :: "effect \<Rightarrow> bool" where
  "is_post (HttpPost _ _ _) = True"
| "is_post _ = False"

fun is_http :: "effect \<Rightarrow> bool" where
  "is_http (HttpGet _ _) = True"
| "is_http (HttpPost _ _ _) = True"
| "is_http _ = False"

definition post_count :: "effect list \<Rightarrow> nat" where
  "post_count es = length (filter is_post es)"

text \<open>
  \<open>appends P w w'\<close>: \<open>w'\<close> is \<open>w\<close> with effects appended to its trace, each
  satisfying \<open>P\<close>, the POST counter advanced by the POSTs among them, and the
  server's answers unchanged. Every operation of the script relates its input
  and output worlds so.
\<close>

definition appends :: "(effect \<Rightarrow> bool) \<Rightarrow> world \<Rightarrow> world \<Rightarrow> bool" where
  "appends P w w' \<longleftrightarrow>
     (\<exists>es. out w' = out w @ es \<and> (\<forall>e \<in> set es. P e) \<and> posts w' = posts w + post_count es) \<and>
     get_reply w' = get_reply w \<and> post_reply w' = post_reply w"

text \<open>
  \<open>throttled es\<close>: every POST in \<open>es\<close> is followed by exactly one printed line
  and then \<open>time.sleep(1)\<close>, the rate limit the script keeps.
\<close>

fun throttled :: "effect list \<Rightarrow> bool" where
  "throttled [] = True"
| "throttled (HttpPost u hs b # Print s # Sleep n # es) = (n = 1 \<and> throttled es)"
| "throttled (HttpPost u hs b # es) = False"
| "throttled (e # es) = throttled es"

text \<open>\<open>w'\<close> extends the trace of \<open>w\<close> by effects that keep the rate limit.\<close>

definition throttled_ext :: "world \<Rightarrow> world \<Rightarrow> bool" where
  "throttled_ext w w' \<longleftrightarrow> (\<exists>es. out w' = out w @ es \<and> throttled es)"

text \<open>\<open>w'\<close> extends the trace of \<open>w\<close> with at most \<open>n\<close> POSTs.\<close>

definition posts_within :: "nat \<Rightarrow> world \<Rightarrow> world \<Rightarrow> bool" where
  "posts_within n w w' \<longleftrightarrow> (\<exists>es. out w' = out w @ es \<and> post_count es \<le> n)"

section \<open>Lemmas\<close>

lemma world_simps [trace_simps]:
  "out (emit e w) = out w @ [e]" "posts (emit e w) = posts w"
  "get_reply (emit e w) = get_reply w" "post_reply (emit e w) = post_reply w"
  by (simp_all add: emit_def)

text \<open>
  The I/O operations unfold into \<open>emit\<close>; \<open>simp add: trace_simps\<close> computes the
  trace a composed operation leaves.
\<close>

declare emit_def [trace_simps] py_print_def [trace_simps] time_sleep_def [trace_simps]
  requests_get_def [trace_simps] requests_post_def [trace_simps]

lemma post_count_simps [simp]:
  "post_count [] = 0"
  "post_count (xs @ ys) = post_count xs + post_count ys"
  "post_count (e # es) = (if is_post e then Suc (post_count es) else post_count es)"
  by (simp_all add: post_count_def)

lemma appends_refl [intro]: "appends P w w"
  by (auto simp: appends_def intro: exI [of _ "[]"])

lemma appends_trans [trans]:
  "appends P w1 w2 \<Longrightarrow> appends P w2 w3 \<Longrightarrow> appends P w1 w3"
  unfolding appends_def by (metis (no_types, lifting) Un_iff add.assoc append.assoc post_count_simps(2) set_append)

lemma appends_mono:
  "appends P w w' \<Longrightarrow> (\<And>e. P e \<Longrightarrow> Q e) \<Longrightarrow> appends Q w w'"
  unfolding appends_def by blast

lemma appends_emit [intro]: "\<not> is_post e \<Longrightarrow> P e \<Longrightarrow> appends P w (emit e w)"
  unfolding appends_def
  by (intro conjI exI [of _ "[e]"]) (simp_all add: emit_def)

lemma appends_print [intro]: "P (Print s) \<Longrightarrow> appends P w (py_print s w)"
  by (simp add: py_print_def appends_emit)

lemma appends_sleep [intro]: "P (Sleep n) \<Longrightarrow> appends P w (time_sleep n w)"
  by (simp add: time_sleep_def appends_emit)

lemma appends_get:
  "P (HttpGet u hs) \<Longrightarrow> appends P w (snd (requests_get u hs w))"
  by (simp add: requests_get_def appends_emit)

lemma appends_post:
  "P (HttpPost u hs b) \<Longrightarrow> appends P w (snd (requests_post u hs b w))"
  unfolding appends_def requests_post_def
  by (intro conjI exI [of _ "[HttpPost u hs b]"]) (simp_all add: emit_def)

lemma appends_out:
  "appends P w w' \<Longrightarrow> \<exists>es. out w' = out w @ es \<and> (\<forall>e \<in> set es. P e)"
  by (auto simp: appends_def)

lemma throttled_append:
  "throttled xs \<Longrightarrow> throttled ys \<Longrightarrow> throttled (xs @ ys)"
  by (induction xs rule: throttled.induct) auto

lemma throttled_no_post:
  "\<forall>e \<in> set es. \<not> is_post e \<Longrightarrow> throttled es"
proof (induction es rule: throttled.induct)
qed auto

lemma throttled_ext_refl [intro]: "throttled_ext w w"
  by (auto simp: throttled_ext_def intro: exI [of _ "[]"])

lemma throttled_ext_trans [trans]:
  "throttled_ext w1 w2 \<Longrightarrow> throttled_ext w2 w3 \<Longrightarrow> throttled_ext w1 w3"
  unfolding throttled_ext_def by (metis append.assoc throttled_append)

lemma throttled_ext_print [intro]: "throttled_ext w (py_print s w)"
  by (auto simp: throttled_ext_def py_print_def emit_def intro: exI [of _ "[Print s]"])

lemma throttled_ext_out:
  "throttled_ext w w' \<Longrightarrow> throttled (out w) \<Longrightarrow> throttled (out w')"
  by (auto simp: throttled_ext_def throttled_append)

lemma posts_within_refl [intro]: "posts_within n w w"
  by (auto simp: posts_within_def intro: exI [of _ "[]"])

lemma posts_within_trans:
  "posts_within n w1 w2 \<Longrightarrow> posts_within m w2 w3 \<Longrightarrow> posts_within (n + m) w1 w3"
  unfolding posts_within_def by (metis add_mono append.assoc post_count_simps(2))

lemma posts_within_mono: "posts_within n w w' \<Longrightarrow> n \<le> m \<Longrightarrow> posts_within m w w'"
  unfolding posts_within_def by (meson order_trans)

lemma posts_within_emit [intro]: "\<not> is_post e \<Longrightarrow> posts_within n w (emit e w)"
  by (auto simp: posts_within_def emit_def intro: exI [of _ "[e]"])

lemma posts_within_print [intro]: "posts_within n w (py_print s w)"
  by (simp add: py_print_def posts_within_emit)

lemma appends_posts_within:
  "appends (\<lambda>e. \<not> is_post e) w w' \<Longrightarrow> posts_within n w w'"
  unfolding appends_def posts_within_def post_count_def
  by (metis filter_False le0 list.size(3))

end
