(* ===== verification/Reader.thy ===== *)
theory Reader
  imports Io "HOL-Library.While_Combinator"
begin

text \<open>
  How the main script reads \<open>yom_tov_dates.csv\<close> (lines 151-162): the outcome
  of opening and tokenizing the file, the header it must carry, the dict
  \<open>csv.DictReader\<close> builds for each row and the four lookups of lines 159-162,
  and \<open>next(reader)\<close>, whose \<open>while row == []\<close> loop skips blank rows. The
  \<open>csv\<close> tokenizer itself is library code and is not modelled: the rows are
  its output.
\<close>

section \<open>The CSV input\<close>

text \<open>
  The outcome of \<open>open(CSV_FILE, 'r')\<close> and of reading it with \<open>csv.reader\<close>:
  the file is missing, or opening it raises another \<open>OSError\<close> (with its text), or
  it yields rows of fields, after which either the file ends (\<open>None\<close>) or reading
  raises (a \<open>csv.Error\<close> or a decoding error, with its text). The tokenizer is
  not modelled: the rows are its output.
\<close>

datatype csv_source =
    CsvNotFound
  | CsvOpenError string
  | CsvRows "string list list" "string option"

definition expected_headers :: "string list" where
  "expected_headers =
     [''Year'', ''Yom Tov'', ''Start of First Days'', ''Start of Last Day (After Chol Hamoed)'']"

definition headers_error_msg :: string where
  "headers_error_msg =
     ''Error: CSV must contain headers: Year, Yom Tov, Start of First Days, Start of Last Day (After Chol Hamoed)''"

text \<open>
  \<open>csv.DictReader.__next__\<close>: \<open>dict(zip(fieldnames, row))\<close> (a repeated field
  name keeps its last value), then, when the row is shorter than the header,
  \<open>restval = None\<close> for every name of the header's tail. The extra fields of a
  longer row go to the key \<open>None\<close>, which the script never reads.
\<close>

definition dict_row :: "string list \<Rightarrow> string list \<Rightarrow> (string \<rightharpoonup> string option)" where
  "dict_row fieldnames row =
     map_of (rev (zip fieldnames (map Some row))) ++
     (if length row < length fieldnames
      then map_of (map (\<lambda>k. (k, None)) (drop (length row) fieldnames))
      else Map.empty)"

text \<open>\<open>row[k]\<close>: a missing key raises \<open>KeyError\<close>.\<close>

definition row_get :: "(string \<rightharpoonup> string option) \<Rightarrow> string \<Rightarrow> pyexc + string option" where
  "row_get d k = (case d k of None \<Rightarrow> Inl (PyError KeyError (py_repr_str k)) | Some v \<Rightarrow> Inr v)"

text \<open>Lines 159-162, read in the source's order.\<close>

definition row_fields ::
  "(string \<rightharpoonup> string option) \<Rightarrow>
   pyexc + (string option \<times> string option \<times> string option \<times> string option)" where
  "row_fields d =
     (case row_get d ''Year'' of
        Inl e \<Rightarrow> Inl e
      | Inr year \<Rightarrow>
          (case row_get d ''Yom Tov'' of
             Inl e \<Rightarrow> Inl e
           | Inr yom_tov \<Rightarrow>
               (case row_get d ''Start of First Days'' of
                  Inl e \<Rightarrow> Inl e
                | Inr first_days_date \<Rightarrow>
                    (case row_get d ''Start of Last Day (After Chol Hamoed)'' of
                       Inl e \<Rightarrow> Inl e
                     | Inr last_day_date \<Rightarrow> Inr (year, yom_tov, first_days_date, last_day_date)))))"

section \<open>next(reader)\<close>

text \<open>
  \<open>DictReader.__next__\<close> calls \<open>next(self.reader)\<close>, then repeats it
  \<open>while row == []\<close>; \<open>next\<close> on an exhausted reader raises \<open>StopIteration\<close>,
  which ends the \<open>for\<close> loop of line 158. The state of the inner loop is the row
  just read and the rows still to come, or \<open>None\<close> once \<open>StopIteration\<close> has
  been raised.
\<close>

definition skip_blank_guard :: "(string list \<times> string list list) option \<Rightarrow> bool" where
  "skip_blank_guard s = (case s of Some (row, rest) \<Rightarrow> row = [] | None \<Rightarrow> False)"

definition skip_blank_step ::
  "(string list \<times> string list list) option \<Rightarrow> (string list \<times> string list list) option" where
  "skip_blank_step s =
     (case s of
        Some (row, rest) \<Rightarrow> (case rest of [] \<Rightarrow> None | r # rs \<Rightarrow> Some (r, rs))
      | None \<Rightarrow> None)"

text \<open>The next non-blank row and the rows after it, or \<open>None\<close> for \<open>StopIteration\<close>.\<close>

definition dict_reader_next :: "string list list \<Rightarrow> (string list \<times> string list list) option" where
  "dict_reader_next rows =
     (case rows of
        [] \<Rightarrow> None
      | r # rs \<Rightarrow>
          (case while_option skip_blank_guard skip_blank_step (Some (r, rs)) of
             Some s \<Rightarrow> s
           | None \<Rightarrow> None))"

section \<open>Lemmas\<close>

subsection \<open>Reading a row of the documented header\<close>

lemma row_fields_full:
  "row_fields (dict_row expected_headers [y, t, fd, ld]) = Inr (Some y, Some t, Some fd, Some ld)"
  by (simp add: row_fields_def row_get_def dict_row_def expected_headers_def)

lemma row_fields_short:
  "row_fields (dict_row expected_headers [y, t, fd]) = Inr (Some y, Some t, Some fd, None)"
  by (simp add: row_fields_def row_get_def dict_row_def expected_headers_def)

lemma row_fields_Inl:
  "row_fields d = Inl e \<Longrightarrow> \<exists>m. e = PyError KeyError m"
  by (auto simp: row_fields_def row_get_def split: option.splits sum.splits)

text \<open>Every name of the header is a key of the row dict, from the row or as \<open>restval\<close>.\<close>

lemma dict_row_has_key:
  assumes "k \<in> set fns"
  shows "dict_row fns row k \<noteq> None"
proof -
  have "k \<in> set (take (length row) fns) \<or> k \<in> set (drop (length row) fns)"
    using assms by (metis Un_iff append_take_drop_id set_append)
  then show ?thesis
  proof
    assume "k \<in> set (take (length row) fns)"
    moreover have "fst ` set (zip fns (map Some row)) = set (take (length row) fns)"
      by (simp only: set_map [symmetric] map_fst_zip_take length_map) (simp add: min_def)
    ultimately have "k \<in> fst ` set (rev (zip fns (map Some row)))" by (simp only: set_rev)
    then have "map_of (rev (zip fns (map Some row))) k \<noteq> None"
      by (simp only: map_of_eq_None_iff not_not)
    then show ?thesis by (auto simp: dict_row_def map_add_def split: option.splits)
  next
    assume d: "k \<in> set (drop (length row) fns)"
    then have "length row < length fns" by (metis drop_all empty_iff list.set(1) not_le_imp_less)
    moreover have "map_of (map (\<lambda>k. (k, None :: string option)) (drop (length row) fns)) k = Some None"
      using d by (induction "drop (length row) fns") (auto simp: map_of_map_restrict)
    ultimately show ?thesis by (auto simp: dict_row_def map_add_def split: option.splits)
  qed
qed

lemma row_fields_header:
  assumes "set expected_headers \<subseteq> set fns"
  shows "\<exists>v. row_fields (dict_row fns row) = Inr v"
proof -
  have k: "dict_row fns row k \<noteq> None" if "k \<in> set expected_headers" for k
    using that assms dict_row_has_key by blast
  obtain a b c d where
    "dict_row fns row ''Year'' = Some a" "dict_row fns row ''Yom Tov'' = Some b"
    "dict_row fns row ''Start of First Days'' = Some c"
    "dict_row fns row ''Start of Last Day (After Chol Hamoed)'' = Some d"
    using k [of "''Year''"] k [of "''Yom Tov''"] k [of "''Start of First Days''"]
      k [of "''Start of Last Day (After Chol Hamoed)''"]
    by (auto simp: expected_headers_def)
  then show ?thesis by (simp add: row_fields_def row_get_def)
qed

subsection \<open>Skipping blank rows\<close>

lemma skip_blank_while:
  "while_option skip_blank_guard skip_blank_step (Some (r, rs)) =
     Some (case dropWhile (\<lambda>x. x = []) (r # rs) of [] \<Rightarrow> None | x # xs \<Rightarrow> Some (x, xs))"
proof (induction rs arbitrary: r)
  case Nil
  have stop: "while_option skip_blank_guard skip_blank_step None = Some None"
    by (subst while_option_unfold) (simp add: skip_blank_guard_def)
  show ?case
  proof (cases "r = []")
    case True
    then show ?thesis
      by (subst while_option_unfold) (simp add: skip_blank_guard_def skip_blank_step_def stop)
  qed (subst while_option_unfold, simp add: skip_blank_guard_def)
next
  case (Cons r' rs')
  show ?case
  proof (cases "r = []")
    case True
    then show ?thesis
      by (subst while_option_unfold) (simp add: skip_blank_guard_def skip_blank_step_def Cons.IH)
  qed (subst while_option_unfold, simp add: skip_blank_guard_def)
qed

lemma dict_reader_next_dropWhile:
  "dict_reader_next rows = (case dropWhile (\<lambda>x. x = []) rows of [] \<Rightarrow> None | r # rs \<Rightarrow> Some (r, rs))"
  by (cases rows) (simp_all add: dict_reader_next_def skip_blank_while)

lemma dict_reader_next_length:
  "dict_reader_next rows = Some (row, rest) \<Longrightarrow> length rest < length rows"
  using length_dropWhile_le [of "\<lambda>x. x = []" rows]
  by (auto simp: dict_reader_next_dropWhile split: list.splits)

end
