(* ===== verification/Config.thy ===== *)
theory Config
  imports Io
begin

text \<open>
  Module-level configuration of \<open>src/create_yom_tov_rules.py\<close> (lines 7-24):
  the four environment variables, the guard that stops the script when one is
  missing or empty, the rules URL built from the location id, the CSV path, the
  time zone, and the header dictionaries of the two requests (lines 33, 128-131).
\<close>

section \<open>Configuration\<close>

record config =
  token :: string
  device_id :: string
  location_id :: string
  virtual_switch_id :: string

text \<open>
  \<open>os.environ.get(...)\<close> for the four names and \<open>all([...])\<close> over them: the
  configuration exists when each is set to a non-empty string.
\<close>

definition load_config :: "env \<Rightarrow> config option" where
  "load_config env =
     (case (truthy_val (env ''SMARTTHINGS_TOKEN''), truthy_val (env ''DEVICE_ID''),
            truthy_val (env ''LOCATION_ID''), truthy_val (env ''VIRTUAL_SWITCH_ID'')) of
        (Some t, Some d, Some l, Some v) \<Rightarrow>
          Some \<lparr>token = t, device_id = d, location_id = l, virtual_switch_id = v\<rparr>
      | _ \<Rightarrow> None)"

definition config_error_msg :: string where
  "config_error_msg =
     ''Error: Please set SMARTTHINGS_TOKEN, DEVICE_ID, LOCATION_ID, and VIRTUAL_SWITCH_ID environment variables.''"

definition api_url :: "config \<Rightarrow> url" where
  "api_url cfg = ''https://api.smartthings.com/v1/rules?locationId='' @ location_id cfg"

definition CSV_FILE :: string where
  "CSV_FILE = ''yom_tov_dates.csv''"

definition TIME_ZONE :: string where
  "TIME_ZONE = ''America/New_York''"

definition get_headers :: "config \<Rightarrow> header list" where
  "get_headers cfg = [(''Authorization'', ''Bearer '' @ token cfg)]"

definition post_headers :: "config \<Rightarrow> header list" where
  "post_headers cfg =
     [(''Authorization'', ''Bearer '' @ token cfg), (''Content-Type'', ''application/json'')]"

section \<open>Lemmas\<close>

lemma truthy_val_Some_iff [simp]: "truthy_val x = Some s \<longleftrightarrow> x = Some s \<and> s \<noteq> []"
  by (cases x) auto

text \<open>
  C28: the configuration is loaded exactly when each of the four variables is
  set to a non-empty string, and then it holds those four strings.
\<close>

theorem load_config_Some_iff:
  "load_config env = Some cfg \<longleftrightarrow>
     env ''SMARTTHINGS_TOKEN'' = Some (token cfg) \<and> token cfg \<noteq> [] \<and>
     env ''DEVICE_ID'' = Some (device_id cfg) \<and> device_id cfg \<noteq> [] \<and>
     env ''LOCATION_ID'' = Some (location_id cfg) \<and> location_id cfg \<noteq> [] \<and>
     env ''VIRTUAL_SWITCH_ID'' = Some (virtual_switch_id cfg) \<and> virtual_switch_id cfg \<noteq> []"
  by (cases cfg) (auto simp: load_config_def split: option.splits if_splits)

lemma load_config_None_iff:
  "load_config env = None \<longleftrightarrow>
     \<not> py_truthy (env ''SMARTTHINGS_TOKEN'') \<or> \<not> py_truthy (env ''DEVICE_ID'') \<or>
     \<not> py_truthy (env ''LOCATION_ID'') \<or> \<not> py_truthy (env ''VIRTUAL_SWITCH_ID'')"
  by (auto simp: load_config_def py_truthy_def split: option.splits if_splits)

end
