(* ===== verification/Fetcher.thy ===== *)
theory Fetcher
  imports Config
begin

text \<open>
  \<open>get_existing_rules\<close> (lines 26-55): one GET of the rules list, and the
  name-to-id index built from the \<open>items\<close> of its JSON answer. Every transport
  error, non-200 status, undecodable body or body without an \<open>items\<close> list is
  answered by an empty index and a warning. Errors raised while the index is
  built (an item that is no dict or lacks \<open>name\<close> or \<open>id\<close>, an unhashable name,
  a body that is a string or list mentioning \<open>items\<close>, or a scalar body) are not
  caught: they are returned as \<open>Inl\<close> and end the script (line 148 is outside
  any \<open>try\<close>).
\<close>

section \<open>The index of existing rules\<close>

text \<open>
  The index is the dict \<open>{rule['name']: rule['id'] ...}\<close>. The script only asks
  it whether a \<open>str\<close> name is a key and for that key's id (lines 58-59); keys that
  are not strings (an \<open>int\<close>, \<open>bool\<close> or \<open>None\<close> name) never equal a \<open>str\<close>, so
  the model keeps the string keys only.
\<close>

type_synonym rules_index = "string \<rightharpoonup> json"

text \<open>
  \<open>rule['name']\<close> and \<open>rule['id']\<close> on an item that is not a dict raise
  \<open>TypeError\<close>, with the messages of CPython 3.12.
\<close>

fun subscript_error :: "json \<Rightarrow> string" where
  "subscript_error (JList _) = ''list indices must be integers or slices, not str''"
| "subscript_error (JStr _) = ''string indices must be integers, not '' @ quoted ''str''"
| "subscript_error v = quoted (py_type_name v) @ '' object is not subscriptable''"

text \<open>
  The dict comprehension of line 43, one item at a time: the key \<open>rule['name']\<close>
  is read first, then the value \<open>rule['id']\<close>, then the key is hashed on
  insertion; a later item with the same name overwrites an earlier one.
\<close>

fun index_items :: "rules_index \<Rightarrow> json list \<Rightarrow> pyexc + rules_index" where
  "index_items m [] = Inr m"
| "index_items m (JObj kvs # rs) =
     (case obj_get kvs ''name'' of
        None \<Rightarrow> Inl (PyError KeyError (py_repr_str ''name''))
      | Some k \<Rightarrow>
          (case obj_get kvs ''id'' of
             None \<Rightarrow> Inl (PyError KeyError (py_repr_str ''id''))
           | Some v \<Rightarrow>
               (case k of
                  JStr s \<Rightarrow> index_items (m(s \<mapsto> v)) rs
                | JList _ \<Rightarrow> Inl (PyError TypeError (''unhashable type: '' @ quoted ''list''))
                | JObj _ \<Rightarrow> Inl (PyError TypeError (''unhashable type: '' @ quoted ''dict''))
                | _ \<Rightarrow> index_items m rs)))"
| "index_items m (r # rs) = Inl (PyError TypeError (subscript_error r))"

text \<open>
  \<open>'items' in data and isinstance(data['items'], list)\<close> (line 42) on each kind
  of decoded body: \<open>Inr (Some items)\<close> when it holds, \<open>Inr None\<close> when it does
  not, \<open>Inl\<close> when evaluating it raises. On a list \<open>in\<close> looks for an element
  equal to \<open>'items'\<close>, on a string for a substring; both then fail at
  \<open>data['items']\<close>. On a scalar \<open>in\<close> itself raises.
\<close>

fun rule_items :: "json \<Rightarrow> pyexc + json list option" where
  "rule_items (JObj kvs) =
     (case obj_get kvs ''items'' of
        Some (JList xs) \<Rightarrow> Inr (Some xs)
      | _ \<Rightarrow> Inr None)"
| "rule_items (JList xs) =
     (if JStr ''items'' \<in> set xs
      then Inl (PyError TypeError ''list indices must be integers or slices, not str'')
      else Inr None)"
| "rule_items (JStr s) =
     (if sublist ''items'' s
      then Inl (PyError TypeError (''string indices must be integers, not '' @ quoted ''str''))
      else Inr None)"
| "rule_items v =
     Inl (PyError TypeError (''argument of type '' @ quoted (py_type_name v) @ '' is not iterable''))"

section \<open>get_existing_rules\<close>

definition get_existing_rules :: "config \<Rightarrow> world \<Rightarrow> (pyexc + rules_index) \<times> world" where
  "get_existing_rules cfg w =
     (let (reply, w1) = requests_get (api_url cfg) (get_headers cfg) w in
      case reply of
        HttpError e \<Rightarrow>
          (Inr Map.empty, py_print (''Warning: Error fetching existing rules: '' @ e) w1)
      | HttpResponse status text body \<Rightarrow>
          (let w2 = py_print (''Response Content: '' @ text)
                      (py_print (''Status Code: '' @ py_str_int status) w1) in
           if status = 200 then
             (case body of
                Inl _ \<Rightarrow>
                  (Inr Map.empty,
                   py_print (''Warning: Response is not valid JSON. Content: '' @ text) w2)
              | Inr data \<Rightarrow>
                  (case rule_items data of
                     Inl e \<Rightarrow> (Inl e, w2)
                   | Inr None \<Rightarrow>
                       (Inr Map.empty,
                        py_print ''Warning: Response does not contain a list of rules.'' w2)
                   | Inr (Some items) \<Rightarrow> (index_items Map.empty items, w2)))
           else
             (Inr Map.empty,
              py_print (''Warning: Could not fetch existing rules: '' @ py_str_int status @
                        '' - '' @ text) w2)))"

section \<open>Specification of the index\<close>

text \<open>
  The abstract contract of the dict comprehension: the entry of a well-formed
  item (a dict with a \<open>str\<close> name and an id), the index as an association
  list read from the last item backwards (a later item with the same name wins),
  and the items on which the comprehension raises.
\<close>

fun item_entry :: "json \<Rightarrow> (string \<times> json) option" where
  "item_entry (JObj kvs) =
     (case (obj_get kvs ''name'', obj_get kvs ''id'') of
        (Some (JStr s), Some v) \<Rightarrow> Some (s, v)
      | _ \<Rightarrow> None)"
| "item_entry _ = None"

definition index_spec :: "json list \<Rightarrow> rules_index" where
  "index_spec items = map_of (rev (List.map_filter item_entry items))"

fun item_raises :: "json \<Rightarrow> bool" where
  "item_raises (JObj kvs) =
     (case (obj_get kvs ''name'', obj_get kvs ''id'') of
        (Some (JList _), Some _) \<Rightarrow> True
      | (Some (JObj _), Some _) \<Rightarrow> True
      | (Some _, Some _) \<Rightarrow> False
      | _ \<Rightarrow> True)"
| "item_raises _ = True"

section \<open>Lemmas\<close>

lemma item_entry_Some:
  "item_entry r = Some (s, v) \<Longrightarrow>
   \<exists>kvs. r = JObj kvs \<and> obj_get kvs ''name'' = Some (JStr s) \<and> obj_get kvs ''id'' = Some v"
  by (cases r) (auto split: option.splits json.splits)

lemma index_items_refines:
  "\<forall>r \<in> set items. item_entry r \<noteq> None \<Longrightarrow> index_items m items = Inr (m ++ index_spec items)"
proof (induction items arbitrary: m)
  case Nil
  then show ?case by (simp add: index_spec_def)
next
  case (Cons r rs)
  then obtain s v where e: "item_entry r = Some (s, v)" by fastforce
  then obtain kvs where r: "r = JObj kvs" "obj_get kvs ''name'' = Some (JStr s)" "obj_get kvs ''id'' = Some v"
    by (blast dest: item_entry_Some)
  have "index_items m (r # rs) = index_items (m(s \<mapsto> v)) rs" by (simp add: r)
  also have "\<dots> = Inr (m(s \<mapsto> v) ++ index_spec rs)" using Cons by simp
  also have "m(s \<mapsto> v) ++ index_spec rs = m ++ index_spec (r # rs)"
    by (simp add: index_spec_def e map_add_upd_left fun_eq_iff map_add_def split: option.splits)
  finally show ?case .
qed

lemma index_items_raises:
  "\<exists>r \<in> set items. item_raises r \<Longrightarrow> \<exists>e. index_items m items = Inl e"
proof (induction items arbitrary: m)
  case (Cons r rs)
  show ?case
  proof (cases "item_raises r")
    case True
    then show ?thesis by (cases r) (auto split: option.splits json.splits)
  next
    case False
    with Cons.prems have "\<exists>r \<in> set rs. item_raises r" by auto
    then have "\<And>m'. \<exists>e. index_items m' rs = Inl e" by (rule Cons.IH)
    with False show ?thesis by (cases r) (auto split: option.splits json.splits)
  qed
qed simp

lemma get_existing_rules_trace:
  "get_existing_rules cfg w = (r, w') \<Longrightarrow>
   \<exists>es. out w' = out w @ HttpGet (api_url cfg) (get_headers cfg) # map Print es \<and>
        posts w' = posts w \<and> get_reply w' = get_reply w \<and> post_reply w' = post_reply w"
  by (auto simp: get_existing_rules_def trace_simps Let_def
           split: http_reply.splits sum.splits option.splits if_splits
           intro: exI [of _ "[]"] exI [of _ "[_]"] exI [of _ "[_, _]"] exI [of _ "[_, _, _]"])

subsection \<open>Behaviour on each kind of reply\<close>

text \<open>
  C23: when \<open>requests.get\<close> raises, the GET has been sent, one warning is
  printed and the index is empty.
\<close>

theorem get_existing_rules_request_error:
  assumes "get_reply w = HttpError e"
  shows "get_existing_rules cfg w =
           (Inr Map.empty,
            w\<lparr>out := out w @ [HttpGet (api_url cfg) (get_headers cfg),
                               Print (''Warning: Error fetching existing rules: '' @ e)]\<rparr>)"
  using assms by (simp add: get_existing_rules_def trace_simps)

theorem get_existing_rules_request_error_witness:
  "get_reply \<lparr>out = [], get_reply = HttpError ''timeout'', post_reply = (\<lambda>_. HttpError ''down''), posts = 0\<rparr> = HttpError ''timeout'' \<and>
   fst (get_existing_rules \<lparr>token = ''t'', device_id = ''d'', location_id = ''l'', virtual_switch_id = ''v''\<rparr> \<lparr>out = [], get_reply = HttpError ''timeout'', post_reply = (\<lambda>_. HttpError ''down''), posts = 0\<rparr>) = Inr Map.empty"
proof -
  have h: "get_reply \<lparr>out = [], get_reply = HttpError ''timeout'', post_reply = (\<lambda>_. HttpError ''down''), posts = 0\<rparr> = HttpError ''timeout''" by simp
  show ?thesis using h get_existing_rules_request_error [OF h, of "\<lparr>token = ''t'', device_id = ''d'', location_id = ''l'', virtual_switch_id = ''v''\<rparr>"] by simp
qed

text \<open>
  C22: a reply with a status other than 200 yields the empty index after the
  status line, the body and a warning are printed.
\<close>

theorem get_existing_rules_non_200:
  assumes "get_reply w = HttpResponse status text body" and "status \<noteq> 200"
  shows "get_existing_rules cfg w =
           (Inr Map.empty,
            w\<lparr>out := out w @ [HttpGet (api_url cfg) (get_headers cfg),
                               Print (''Status Code: '' @ py_str_int status),
                               Print (''Response Content: '' @ text),
                               Print (''Warning: Could not fetch existing rules: '' @
                                      py_str_int status @ '' - '' @ text)]\<rparr>)"
  using assms by (simp add: get_existing_rules_def trace_simps Let_def)

theorem get_existing_rules_non_200_witness:
  "get_reply \<lparr>out = [], get_reply = HttpResponse 404 ''Not Found'' (Inl ''Expecting value''), post_reply = (\<lambda>_. HttpError ''down''), posts = 0\<rparr> = HttpResponse 404 ''Not Found'' (Inl ''Expecting value'') \<and> (404::int) \<noteq> 200 \<and>
   fst (get_existing_rules \<lparr>token = ''t'', device_id = ''d'', location_id = ''l'', virtual_switch_id = ''v''\<rparr> \<lparr>out = [], get_reply = HttpResponse 404 ''Not Found'' (Inl ''Expecting value''), post_reply = (\<lambda>_. HttpError ''down''), posts = 0\<rparr>) = Inr Map.empty"
proof -
  have h: "get_reply \<lparr>out = [], get_reply = HttpResponse 404 ''Not Found'' (Inl ''Expecting value''), post_reply = (\<lambda>_. HttpError ''down''), posts = 0\<rparr> = HttpResponse 404 ''Not Found'' (Inl ''Expecting value'') \<and> (404::int) \<noteq> 200" by simp
  show ?thesis using h get_existing_rules_non_200 [OF conjunct1 [OF h] conjunct2 [OF h], of "\<lparr>token = ''t'', device_id = ''d'', location_id = ''l'', virtual_switch_id = ''v''\<rparr>"] by simp
qed

text \<open>
  C24: a 200 reply whose body is not valid JSON yields the empty index after the
  status, the body and a warning are printed.
\<close>

theorem get_existing_rules_invalid_json:
  assumes "get_reply w = HttpResponse 200 text (Inl err)"
  shows "get_existing_rules cfg w =
           (Inr Map.empty,
            w\<lparr>out := out w @ [HttpGet (api_url cfg) (get_headers cfg),
                               Print (''Status Code: '' @ py_str_int 200),
                               Print (''Response Content: '' @ text),
                               Print (''Warning: Response is not valid JSON. Content: '' @ text)]\<rparr>)"
  using assms by (simp add: get_existing_rules_def trace_simps Let_def)

theorem get_existing_rules_invalid_json_witness:
  "get_reply \<lparr>out = [], get_reply = HttpResponse 200 ''<html>'' (Inl ''Expecting value''), post_reply = (\<lambda>_. HttpError ''down''), posts = 0\<rparr> = HttpResponse 200 ''<html>'' (Inl ''Expecting value'') \<and>
   fst (get_existing_rules \<lparr>token = ''t'', device_id = ''d'', location_id = ''l'', virtual_switch_id = ''v''\<rparr> \<lparr>out = [], get_reply = HttpResponse 200 ''<html>'' (Inl ''Expecting value''), post_reply = (\<lambda>_. HttpError ''down''), posts = 0\<rparr>) = Inr Map.empty"
proof -
  have h: "get_reply \<lparr>out = [], get_reply = HttpResponse 200 ''<html>'' (Inl ''Expecting value''), post_reply = (\<lambda>_. HttpError ''down''), posts = 0\<rparr> = HttpResponse 200 ''<html>'' (Inl ''Expecting value'')" by simp
  show ?thesis using h get_existing_rules_invalid_json [OF h, of "\<lparr>token = ''t'', device_id = ''d'', location_id = ''l'', virtual_switch_id = ''v''\<rparr>"] by simp
qed

text \<open>
  C25: a 200 reply whose \<open>items\<close> are all dicts with a \<open>str\<close> name and an
  id yields exactly the index of the specification: each name maps to the id of
  the last item carrying it.
\<close>

theorem get_existing_rules_index:
  assumes "get_reply w = HttpResponse 200 text (Inr data)"
    and "rule_items data = Inr (Some items)" and "\<forall>r \<in> set items. item_entry r \<noteq> None"
  shows "fst (get_existing_rules cfg w) = Inr (index_spec items)"
  using assms index_items_refines [of items Map.empty]
  by (simp add: get_existing_rules_def requests_get_def Let_def)

theorem get_existing_rules_index_witness:
  "get_reply \<lparr>out = [], get_reply = HttpResponse 200 ''{}''
      (Inr (JObj [(''items'', JList [JObj [(''name'', JStr ''Pesach (5785)''), (''id'', JStr ''r1'')],
                                     JObj [(''id'', JStr ''r2''), (''name'', JStr ''Pesach (5785)'')]])])),
      post_reply = (\<lambda>_. HttpError ''down''), posts = 0\<rparr> =
     HttpResponse 200 ''{}''
      (Inr (JObj [(''items'', JList [JObj [(''name'', JStr ''Pesach (5785)''), (''id'', JStr ''r1'')],
                                     JObj [(''id'', JStr ''r2''), (''name'', JStr ''Pesach (5785)'')]])])) \<and>
   rule_items (JObj [(''items'', JList [JObj [(''name'', JStr ''Pesach (5785)''), (''id'', JStr ''r1'')],
                                     JObj [(''id'', JStr ''r2''), (''name'', JStr ''Pesach (5785)'')]])]) =
     Inr (Some [JObj [(''name'', JStr ''Pesach (5785)''), (''id'', JStr ''r1'')],
                JObj [(''id'', JStr ''r2''), (''name'', JStr ''Pesach (5785)'')]]) \<and>
   list_all (\<lambda>r. item_entry r \<noteq> None) [JObj [(''name'', JStr ''Pesach (5785)''), (''id'', JStr ''r1'')],
                JObj [(''id'', JStr ''r2''), (''name'', JStr ''Pesach (5785)'')]] \<and>
   fst (get_existing_rules \<lparr>token = ''t'', device_id = ''d'', location_id = ''l'', virtual_switch_id = ''v''\<rparr>
      \<lparr>out = [], get_reply = HttpResponse 200 ''{}''
      (Inr (JObj [(''items'', JList [JObj [(''name'', JStr ''Pesach (5785)''), (''id'', JStr ''r1'')],
                                     JObj [(''id'', JStr ''r2''), (''name'', JStr ''Pesach (5785)'')]])])),
      post_reply = (\<lambda>_. HttpError ''down''), posts = 0\<rparr>) =
     Inr [''Pesach (5785)'' \<mapsto> JStr ''r2'']"
proof -
  let ?items = "[JObj [(''name'', JStr ''Pesach (5785)''), (''id'', JStr ''r1'')],
                 JObj [(''id'', JStr ''r2''), (''name'', JStr ''Pesach (5785)'')]]"
  let ?w = "\<lparr>out = [], get_reply = HttpResponse 200 ''{}'' (Inr (JObj [(''items'', JList ?items)])),
             post_reply = (\<lambda>_. HttpError ''down''), posts = 0\<rparr>"
  let ?cfg = "\<lparr>token = ''t'', device_id = ''d'', location_id = ''l'', virtual_switch_id = ''v''\<rparr>"
  have h1: "get_reply ?w = HttpResponse 200 ''{}'' (Inr (JObj [(''items'', JList ?items)]))" by simp
  have h2: "rule_items (JObj [(''items'', JList ?items)]) = Inr (Some ?items)" by (simp add: obj_get_def)
  have h3: "\<forall>r \<in> set ?items. item_entry r \<noteq> None" by (simp add: obj_get_def)
  have "index_spec ?items = [''Pesach (5785)'' \<mapsto> JStr ''r2'']"
    by (simp add: index_spec_def obj_get_def)
  then show ?thesis using h1 h2 h3 get_existing_rules_index [OF h1 h2 h3, of ?cfg] by simp
qed

text \<open>
  C26: a 200 reply with an \<open>items\<close> list holding a malformed item (no dict,
  no \<open>name\<close>, no \<open>id\<close>, or an unhashable name) makes the function raise,
  although its docstring and the spec say it returns a dict in every case.
\<close>

theorem get_existing_rules_raises:
  assumes "get_reply w = HttpResponse 200 text (Inr data)"
    and "rule_items data = Inr (Some items)" and "\<exists>r \<in> set items. item_raises r"
  shows "\<exists>e. fst (get_existing_rules cfg w) = Inl e"
  using assms index_items_raises [of items Map.empty]
  by (auto simp: get_existing_rules_def requests_get_def Let_def)

theorem get_existing_rules_raises_witness:
  "get_reply \<lparr>out = [], get_reply = HttpResponse 200 ''{}''
      (Inr (JObj [(''items'', JList [JObj [(''name'', JStr ''Pesach (5785)'')]])])),
      post_reply = (\<lambda>_. HttpError ''down''), posts = 0\<rparr> =
     HttpResponse 200 ''{}'' (Inr (JObj [(''items'', JList [JObj [(''name'', JStr ''Pesach (5785)'')]])])) \<and>
   rule_items (JObj [(''items'', JList [JObj [(''name'', JStr ''Pesach (5785)'')]])]) =
     Inr (Some [JObj [(''name'', JStr ''Pesach (5785)'')]]) \<and>
   (\<exists>r \<in> set [JObj [(''name'', JStr ''Pesach (5785)'')]]. item_raises r) \<and>
   (\<exists>e. fst (get_existing_rules \<lparr>token = ''t'', device_id = ''d'', location_id = ''l'', virtual_switch_id = ''v''\<rparr>
      \<lparr>out = [], get_reply = HttpResponse 200 ''{}''
        (Inr (JObj [(''items'', JList [JObj [(''name'', JStr ''Pesach (5785)'')]])])),
        post_reply = (\<lambda>_. HttpError ''down''), posts = 0\<rparr>) = Inl e)"
proof -
  let ?items = "[JObj [(''name'', JStr ''Pesach (5785)'')]]"
  let ?w = "\<lparr>out = [], get_reply = HttpResponse 200 ''{}'' (Inr (JObj [(''items'', JList ?items)])),
             post_reply = (\<lambda>_. HttpError ''down''), posts = 0\<rparr>"
  have h1: "get_reply ?w = HttpResponse 200 ''{}'' (Inr (JObj [(''items'', JList ?items)]))" by simp
  have h2: "rule_items (JObj [(''items'', JList ?items)]) = Inr (Some ?items)" by (simp add: obj_get_def)
  have h3: "\<exists>r \<in> set ?items. item_raises r" by (simp add: obj_get_def)
  show ?thesis using h1 h2 h3 get_existing_rules_raises [OF h1 h2 h3] by blast
qed

subsection \<open>Effects of get_existing_rules\<close>

lemma get_existing_rules_appends:
  "get_existing_rules cfg w = (r, w') \<Longrightarrow> (\<And>u hs. P (HttpGet u hs)) \<Longrightarrow> (\<And>s. P (Print s)) \<Longrightarrow>
   appends P w w'"
  by (drule get_existing_rules_trace) (auto simp: appends_def post_count_def filter_map comp_def)

lemma get_existing_rules_throttled:
  "get_existing_rules cfg w = (r, w') \<Longrightarrow> throttled_ext w w'"
  by (drule get_existing_rules_trace) (auto simp: throttled_ext_def intro!: throttled_no_post)

end
