(* ===== verification/Creator.thy ===== *)
theory Creator
  imports Fetcher "HOL-Library.Monad_Syntax"
begin

text \<open>
  \<open>create_rule(name, date_str)\<close> (lines 57-145): skip a name the index already
  holds; parse the date with \<open>map(int, date_str.split('-'))\<close>; build the rule
  JSON (an AND of "virtual switch is on" and "today is the date", whose action
  turns sabbath mode on at the device); POST it; print the outcome; sleep one
  second. A \<open>RequestException\<close> (which includes the \<open>JSONDecodeError\<close> of
  \<open>response.json()\<close>) is caught and printed; an \<open>AttributeError\<close> from
  \<open>.get\<close> on a decoded body that is not a dict is not caught here and leaves
  the function before the sleep.
\<close>

section \<open>Parsing the date\<close>

text \<open>
  Line 62: \<open>year_int, month_int, day_int = map(int, date_str.split('-'))\<close>. It
  raises \<open>ValueError\<close> (here \<open>None\<close>) when a piece is not an integer or when
  there are not exactly three pieces.
\<close>

definition parse_date :: "string \<Rightarrow> (int \<times> int \<times> int) option" where
  "parse_date date_str =
     (case py_split CHR ''-'' date_str of
        [a, b, c] \<Rightarrow>
          (case (py_int a, py_int b, py_int c) of
             (Some y, Some m, Some d) \<Rightarrow> Some (y, m, d)
           | _ \<Rightarrow> None)
      | _ \<Rightarrow> None)"

section \<open>The rule definition\<close>

text \<open>Lines 68-125, key for key in the source's order.\<close>

definition rule_json :: "config \<Rightarrow> string \<Rightarrow> int \<Rightarrow> int \<Rightarrow> int \<Rightarrow> json" where
  "rule_json cfg name y m d =
     JObj [
       (''name'', JStr name),
       (''timeZoneId'', JStr TIME_ZONE),
       (''actions'', JList [
         JObj [(''if'', JObj [
           (''and'', JList [
             JObj [(''equals'', JObj [
               (''left'', JObj [(''device'', JObj [
                 (''devices'', JList [JStr (virtual_switch_id cfg)]),
                 (''component'', JStr ''main''),
                 (''capability'', JStr ''switch''),
                 (''attribute'', JStr ''switch'')])]),
               (''right'', JObj [(''string'', JStr ''on'')])])],
             JObj [(''equals'', JObj [
               (''left'', JObj [(''date'', JObj [
                 (''timeZoneId'', JStr TIME_ZONE),
                 (''reference'', JStr ''Today'')])]),
               (''right'', JObj [(''date'', JObj [
                 (''timeZoneId'', JStr TIME_ZONE),
                 (''year'', JInt y),
                 (''month'', JInt m),
                 (''day'', JInt d)])])])]]),
           (''then'', JList [
             JObj [(''command'', JObj [
               (''devices'', JList [JStr (device_id cfg)]),
               (''commands'', JList [
                 JObj [(''component'', JStr ''main''),
                       (''capability'', JStr ''samsungce.sabbathMode''),
                       (''command'', JStr ''on''),
                       (''arguments'', JList [])]])])]])])]])]"

section \<open>Reporting the POST\<close>

text \<open>
  Lines 134-142: the line printed for each outcome of the POST, or the
  \<open>AttributeError\<close> that escapes. \<open>response.json().get('id', 'unknown')\<close> on
  a 200/201 reply: an undecodable body raises \<open>JSONDecodeError\<close>, caught as a
  \<open>RequestException\<close>; a decoded body that is not a dict has no \<open>get\<close>.
\<close>

fun post_result :: "string \<Rightarrow> http_reply \<Rightarrow> pyexc + string" where
  "post_result name (HttpError e) =
     Inr (''Error creating rule '' @ quoted name @ '': '' @ e)"
| "post_result name (HttpResponse status text body) =
     (if status = 200 \<or> status = 201 then
        (case body of
           Inl e \<Rightarrow> Inr (''Error creating rule '' @ quoted name @ '': '' @ e)
         | Inr (JObj kvs) \<Rightarrow>
             Inr (''Successfully created rule '' @ quoted name @ '' with ID: '' @
                  py_str (case obj_get kvs ''id'' of None \<Rightarrow> JStr ''unknown'' | Some v \<Rightarrow> v))
         | Inr v \<Rightarrow>
             Inl (PyError AttributeError
                    (quoted (py_type_name v) @ '' object has no attribute '' @ quoted ''get'')))
      else Inr (''Failed to create rule '' @ quoted name @ '': '' @ py_str_int status @
                '' - '' @ text))"

section \<open>create_rule\<close>

definition create_rule ::
  "config \<Rightarrow> rules_index \<Rightarrow> string \<Rightarrow> string \<Rightarrow> world \<Rightarrow> (pyexc + unit) \<times> world" where
  "create_rule cfg existing_rules name date_str w =
     (case existing_rules name of
        Some rid \<Rightarrow>
          (Inr (), py_print (''Rule '' @ quoted name @ '' already exists with ID: '' @
                             py_str rid @ ''. Skipping.'') w)
      | None \<Rightarrow>
          (case parse_date date_str of
             None \<Rightarrow>
               (Inr (), py_print (''Error: Invalid date format for '' @ quoted name @ '': '' @
                                  date_str @ ''. Expected YYYY-MM-DD.'') w)
           | Some (y, m, d) \<Rightarrow>
               (let (reply, w1) = requests_post (api_url cfg) (post_headers cfg)
                                    (rule_json cfg name y m d) w in
                case post_result name reply of
                  Inl e \<Rightarrow> (Inl e, w1)
                | Inr msg \<Rightarrow> (Inr (), time_sleep 1 (py_print msg w1)))))"

section \<open>Specification side\<close>

text \<open>
  \<open>format_date\<close> writes a date the way the spec asks for it (\<open>YYYY-MM-DD\<close>,
  zero-padded). \<open>rule_target\<close> reads back what a rule definition schedules:
  its name and the year, month and day of its date condition, following the path
  \<open>actions[0].if.and[1].equals.right.date\<close> of the Rules API schema.
  \<open>fresh_post cfg idx e\<close> holds of every effect except a POST that is not a
  rule for the configured URL and headers whose name the index lacks.
\<close>

definition zpad :: "nat \<Rightarrow> string \<Rightarrow> string" where
  "zpad k s = replicate (k - length s) CHR ''0'' @ s"

definition format_date :: "nat \<Rightarrow> nat \<Rightarrow> nat \<Rightarrow> string" where
  "format_date y m d = zpad 4 (dec_nat y) @ ''-'' @ zpad 2 (dec_nat m) @ ''-'' @ zpad 2 (dec_nat d)"

fun as_obj :: "json \<Rightarrow> (string \<times> json) list option" where
  "as_obj (JObj kvs) = Some kvs" | "as_obj _ = None"
fun as_list :: "json \<Rightarrow> json list option" where
  "as_list (JList xs) = Some xs" | "as_list _ = None"
fun as_str :: "json \<Rightarrow> string option" where
  "as_str (JStr s) = Some s" | "as_str _ = None"
fun as_int :: "json \<Rightarrow> int option" where
  "as_int (JInt i) = Some i" | "as_int _ = None"

definition field :: "string \<Rightarrow> json \<Rightarrow> json option" where
  "field k v = as_obj v \<bind> (\<lambda>kvs. obj_get kvs k)"

fun second :: "'a list \<Rightarrow> 'a option" where
  "second [_, x] = Some x" | "second _ = None"

definition rule_target :: "json \<Rightarrow> (string \<times> int \<times> int \<times> int) option" where
  "rule_target r = do {
     n \<leftarrow> field ''name'' r \<bind> as_str;
     acts \<leftarrow> field ''actions'' r \<bind> as_list;
     act \<leftarrow> (case acts of [a] \<Rightarrow> Some a | _ \<Rightarrow> None);
     conds \<leftarrow> field ''if'' act \<bind> field ''and'' \<bind> as_list;
     c \<leftarrow> second conds;
     dt \<leftarrow> field ''equals'' c \<bind> field ''right'' \<bind> field ''date'';
     y \<leftarrow> field ''year'' dt \<bind> as_int;
     m \<leftarrow> field ''month'' dt \<bind> as_int;
     d \<leftarrow> field ''day'' dt \<bind> as_int;
     Some (n, y, m, d)
   }"

fun fresh_post :: "config \<Rightarrow> rules_index \<Rightarrow> effect \<Rightarrow> bool" where
  "fresh_post cfg idx (HttpPost u hs b) =
     (u = api_url cfg \<and> hs = post_headers cfg \<and>
      (case rule_target b of
         Some (n, y, m, d) \<Rightarrow> b = rule_json cfg n y m d \<and> idx n = None
       | None \<Rightarrow> False))"
| "fresh_post cfg idx _ = True"

section \<open>Lemmas\<close>

subsection \<open>The rule definition\<close>

lemma rule_target_rule_json: "rule_target (rule_json cfg n y m d) = Some (n, y, m, d)"
  by (simp add: rule_target_def rule_json_def field_def obj_get_def)

subsection \<open>Parsing the date\<close>

lemma foldl_dec_step_zeros: "foldl dec_step 0 (replicate k CHR ''0'') = 0"
  by (induction k) (simp_all add: digit_val_def)

lemma py_int_digits:
  assumes "\<forall>c \<in> set s. is_digit c" "s \<noteq> []" "length s \<le> max_str_digits"
  shows "py_int s = Some (int (foldl dec_step 0 s))"
proof -
  obtain d ds where s: "s = d # ds" using assms(2) by (cases s) auto
  have "py_strip s = s" using assms(1) is_digit_not_special by (blast intro: py_strip_id)
  moreover have "length (filter is_digit s) = length s" using assms(1) by (simp add: filter_id_conv [THEN iffD2])
  ultimately show ?thesis using assms is_digit_not_special [of d]
    by (simp add: s py_int_def unsigned_int_def int_digits_all_digits)
qed

lemma zpad_dec_digits: "\<forall>c \<in> set (zpad k (dec_nat n)). is_digit c"
  using dec_nat_digits by (auto simp: zpad_def is_digit_def)

lemma py_int_zpad: "k \<le> max_str_digits \<Longrightarrow> length (dec_nat n) \<le> k \<Longrightarrow> py_int (zpad k (dec_nat n)) = Some (int n)"
  using dec_nat_digits [of n]
  by (subst py_int_digits) (auto simp: zpad_def foldl_dec_step_zeros dec_nat_value is_digit_def)

lemma length_dec_nat_less: "n < 10 ^ k \<Longrightarrow> 0 < k \<Longrightarrow> length (dec_nat n) \<le> k"
proof (induction n arbitrary: k rule: dec_nat.induct)
  case (1 n)
  show ?case
  proof (cases "n < 10")
    case True
    then show ?thesis using "1.prems" by (simp add: dec_nat.simps [of n])
  next
    case False
    obtain k' where k: "k = Suc k'" using "1.prems" by (cases k) auto
    have "k' \<noteq> 0"
    proof
      assume "k' = 0"
      with "1.prems" k have "n < 10" by simp
      with False show False by simp
    qed
    moreover have "n div 10 < 10 ^ k'"
      using "1.prems" k by (simp add: less_mult_imp_div_less)
    ultimately show ?thesis using "1.IH" False k by (simp add: dec_nat.simps [of n])
  qed
qed

lemma zpad_no_dash: "CHR ''-'' \<notin> set (zpad k (dec_nat n))"
  using zpad_dec_digits [of k n] is_digit_not_special by blast

text \<open>
  C27: every date written as \<open>YYYY-MM-DD\<close> (year below 10000, month and day
  below 100, zero-padded) is parsed back to its three numbers.
\<close>

theorem parse_date_format_date:
  assumes "y < 10000" and "m < 100" and "d < 100"
  shows "parse_date (format_date y m d) = Some (int y, int m, int d)"
proof -
  let ?ps = "[zpad 4 (dec_nat y), zpad 2 (dec_nat m), zpad 2 (dec_nat d)]"
  have j: "format_date y m d = py_join ''-'' ?ps" by (simp add: format_date_def)
  have "py_split CHR ''-'' (py_join [CHR ''-''] ?ps) = ?ps"
    by (rule py_split_py_join) (simp_all add: zpad_no_dash)
  then have s: "py_split CHR ''-'' (format_date y m d) = ?ps" by (simp add: j)
  have ly: "length (dec_nat y) \<le> 4" using assms(1) by (intro length_dec_nat_less) simp_all
  have lm: "length (dec_nat m) \<le> 2" using assms(2) by (intro length_dec_nat_less) simp_all
  have ld: "length (dec_nat d) \<le> 2" using assms(3) by (intro length_dec_nat_less) simp_all
  show ?thesis
    using s py_int_zpad [OF _ ly] py_int_zpad [OF _ lm] py_int_zpad [OF _ ld]
    by (simp add: parse_date_def max_str_digits_def)
qed

theorem parse_date_format_date_witness:
  "(2024::nat) < 10000 \<and> (10::nat) < 100 \<and> (3::nat) < 100 \<and>
   parse_date (format_date 2024 10 3) = Some (2024, 10, 3)"
proof -
  have h: "(2024::nat) < 10000" "(10::nat) < 100" "(3::nat) < 100" by simp_all
  show ?thesis using parse_date_format_date [OF h] by simp
qed

text \<open>
  C21: what the date check accepts, exactly: \<open>date_str.split('-')\<close> has three
  pieces and \<open>int()\<close> accepts each. So a date is parsed precisely when it is
  three dash-free parts that CPython reads as integers, whatever their width,
  range, sign, whitespace or underscores.
\<close>

theorem parse_date_iff:
  "parse_date s = Some (y, m, d) \<longleftrightarrow>
     (\<exists>a b c. s = a @ CHR ''-'' # b @ CHR ''-'' # c \<and>
              CHR ''-'' \<notin> set a \<and> CHR ''-'' \<notin> set b \<and> CHR ''-'' \<notin> set c \<and>
              py_int a = Some y \<and> py_int b = Some m \<and> py_int c = Some d)"
proof
  assume p: "parse_date s = Some (y, m, d)"
  then obtain a b c where sp: "py_split CHR ''-'' s = [a, b, c]"
    by (auto simp: parse_date_def split: list.splits)
  with p have ints: "py_int a = Some y" "py_int b = Some m" "py_int c = Some d"
    by (auto simp: parse_date_def split: option.splits)
  have "s = py_join ''-'' [a, b, c]" using py_join_py_split [of "CHR ''-''" s] sp by simp
  moreover have "list_all (\<lambda>p. CHR ''-'' \<notin> set p) [a, b, c]"
    using split_acc_nosep [of "CHR ''-''" "[]" s] sp by (simp add: py_split_def)
  ultimately show "\<exists>a b c. s = a @ CHR ''-'' # b @ CHR ''-'' # c \<and>
              CHR ''-'' \<notin> set a \<and> CHR ''-'' \<notin> set b \<and> CHR ''-'' \<notin> set c \<and>
              py_int a = Some y \<and> py_int b = Some m \<and> py_int c = Some d"
    using ints by auto
next
  assume "\<exists>a b c. s = a @ CHR ''-'' # b @ CHR ''-'' # c \<and>
              CHR ''-'' \<notin> set a \<and> CHR ''-'' \<notin> set b \<and> CHR ''-'' \<notin> set c \<and>
              py_int a = Some y \<and> py_int b = Some m \<and> py_int c = Some d"
  then obtain a b c where s: "s = py_join ''-'' [a, b, c]"
    and nd: "\<forall>p \<in> set [a, b, c]. CHR ''-'' \<notin> set p"
    and ints: "py_int a = Some y" "py_int b = Some m" "py_int c = Some d"
    by auto
  have "py_split CHR ''-'' s = [a, b, c]"
    using split_acc_py_join [OF nd, of "[]"] s by (simp add: py_split_def)
  with ints show "parse_date s = Some (y, m, d)" by (simp add: parse_date_def)
qed

subsection \<open>create_rule on each path\<close>

text \<open>
  C4: a name the index already holds is skipped: one line is printed and nothing
  is sent.
\<close>

theorem create_rule_existing:
  assumes "existing_rules name = Some rid"
  shows "create_rule cfg existing_rules name date_str w =
           (Inr (), py_print (''Rule '' @ quoted name @ '' already exists with ID: '' @
                             py_str rid @ ''. Skipping.'') w)"
  using assms by (simp add: create_rule_def)

theorem create_rule_existing_witness:
  "[''Pesach (5785)'' \<mapsto> JStr ''r1''] ''Pesach (5785)'' = Some (JStr ''r1'') \<and>
   snd (create_rule \<lparr>token = ''t'', device_id = ''d'', location_id = ''l'', virtual_switch_id = ''v''\<rparr> [''Pesach (5785)'' \<mapsto> JStr ''r1''] ''Pesach (5785)'' ''2025-04-12''
          (\<lparr>out = [], get_reply = HttpError ''unused'', post_reply = (\<lambda>_. HttpError ''down''), posts = 0\<rparr>)) =
   py_print (''Rule '' @ quoted ''Pesach (5785)'' @ '' already exists with ID: r1. Skipping.'')
     (\<lparr>out = [], get_reply = HttpError ''unused'', post_reply = (\<lambda>_. HttpError ''down''), posts = 0\<rparr>)"
proof -
  have h: "[''Pesach (5785)'' \<mapsto> JStr ''r1''] ''Pesach (5785)'' = Some (JStr ''r1'')" by simp
  show ?thesis using h create_rule_existing [where existing_rules = "[''Pesach (5785)'' \<mapsto> JStr ''r1'']"
    and name = "''Pesach (5785)''" and rid = "JStr ''r1''", OF h] by simp
qed

text \<open>
  C5: a name that is new but a date that does not parse prints the error line
  and sends nothing (no POST, no sleep).
\<close>

theorem create_rule_invalid_date:
  assumes "existing_rules name = None" and "parse_date date_str = None"
  shows "create_rule cfg existing_rules name date_str w =
           (Inr (), w\<lparr>out := out w @ [Print (''Error: Invalid date format for '' @ quoted name @
                                           '': '' @ date_str @ ''. Expected YYYY-MM-DD.'')]\<rparr>)"
  using assms by (simp add: create_rule_def trace_simps)

theorem create_rule_invalid_date_witness:
  "Map.empty ''Sukkos (5785)'' = (None :: json option) \<and> parse_date ''2024/10/17'' = None \<and>
   out (snd (create_rule \<lparr>token = ''t'', device_id = ''d'', location_id = ''l'', virtual_switch_id = ''v''\<rparr> Map.empty ''Sukkos (5785)'' ''2024/10/17''
          (\<lparr>out = [], get_reply = HttpError ''unused'', post_reply = (\<lambda>_. HttpError ''down''), posts = 0\<rparr>))) =
   [Print (''Error: Invalid date format for '' @ quoted ''Sukkos (5785)'' @
           '': 2024/10/17. Expected YYYY-MM-DD.'')]"
proof -
  have h1: "Map.empty ''Sukkos (5785)'' = (None :: json option)" by simp
  have h2: "parse_date ''2024/10/17'' = None" by code_simp
  show ?thesis using h1 h2 create_rule_invalid_date [where existing_rules = Map.empty and name = "''Sukkos (5785)''", OF h1 h2] by simp
qed

text \<open>
  C16: a new name with a parsable date is POSTed as the rule for that date; the
  reported line follows, then \<open>time.sleep(1)\<close>, whatever the server answered,
  as long as the answer does not make \<open>.get\<close> fail.
\<close>

theorem create_rule_posts:
  assumes "existing_rules name = None" and "parse_date date_str = Some (y, m, d)"
    and "post_result name (post_reply w (posts w)) = Inr msg"
  shows "create_rule cfg existing_rules name date_str w =
           (Inr (), w\<lparr>out := out w @ [HttpPost (api_url cfg) (post_headers cfg) (rule_json cfg name y m d),
                                        Print msg, Sleep 1],
                     posts := Suc (posts w)\<rparr>)"
  using assms by (simp add: create_rule_def trace_simps)

theorem create_rule_posts_witness:
  "Map.empty ''Sukkos (5785)'' = (None :: json option) \<and>
   parse_date ''2024-10-17'' = Some (2024, 10, 17) \<and>
   post_result ''Sukkos (5785)''
     (post_reply (\<lparr>out = [], get_reply = HttpError ''unused'', post_reply = (\<lambda>_. HttpResponse 201 ''{}'' (Inr (JObj [(''id'', JStr ''r9'')]))), posts = 0\<rparr>)
       (posts (\<lparr>out = [], get_reply = HttpError ''unused'', post_reply = (\<lambda>_. HttpResponse 201 ''{}'' (Inr (JObj [(''id'', JStr ''r9'')]))), posts = 0\<rparr>))) =
     Inr (''Successfully created rule '' @ quoted ''Sukkos (5785)'' @ '' with ID: r9'') \<and>
   out (snd (create_rule \<lparr>token = ''t'', device_id = ''d'', location_id = ''l'', virtual_switch_id = ''v''\<rparr> Map.empty ''Sukkos (5785)'' ''2024-10-17''
          (\<lparr>out = [], get_reply = HttpError ''unused'', post_reply = (\<lambda>_. HttpResponse 201 ''{}'' (Inr (JObj [(''id'', JStr ''r9'')]))), posts = 0\<rparr>))) =
   [HttpPost (api_url \<lparr>token = ''t'', device_id = ''d'', location_id = ''l'', virtual_switch_id = ''v''\<rparr>) (post_headers \<lparr>token = ''t'', device_id = ''d'', location_id = ''l'', virtual_switch_id = ''v''\<rparr>) (rule_json \<lparr>token = ''t'', device_id = ''d'', location_id = ''l'', virtual_switch_id = ''v''\<rparr> ''Sukkos (5785)'' 2024 10 17),
    Print (''Successfully created rule '' @ quoted ''Sukkos (5785)'' @ '' with ID: r9''), Sleep 1]"
proof -
  have h1: "Map.empty ''Sukkos (5785)'' = (None :: json option)" by simp
  have h2: "parse_date ''2024-10-17'' = Some (2024, 10, 17)" by code_simp
  have h3: "post_result ''Sukkos (5785)''
     (post_reply (\<lparr>out = [], get_reply = HttpError ''unused'', post_reply = (\<lambda>_. HttpResponse 201 ''{}'' (Inr (JObj [(''id'', JStr ''r9'')]))), posts = 0\<rparr>)
       (posts (\<lparr>out = [], get_reply = HttpError ''unused'', post_reply = (\<lambda>_. HttpResponse 201 ''{}'' (Inr (JObj [(''id'', JStr ''r9'')]))), posts = 0\<rparr>))) =
     Inr (''Successfully created rule '' @ quoted ''Sukkos (5785)'' @ '' with ID: r9'')"
    by (simp add: obj_get_def)
  show ?thesis using h1 h2 h3 create_rule_posts [where existing_rules = Map.empty and name = "''Sukkos (5785)''", OF h1 h2 h3] by simp
qed

text \<open>
  C17: when the server accepts the rule (200 or 201) but its body decodes to a
  value that is not a dict, \<open>.get\<close> raises \<open>AttributeError\<close>: the POST has
  been sent, no line is printed, the sleep is skipped and the error escapes
  \<open>create_rule\<close> (the spec says per-rule failures are non-fatal and the sleep
  follows every attempt).
\<close>

theorem create_rule_raises:
  assumes "existing_rules name = None" and "parse_date date_str = Some (y, m, d)"
    and "post_reply w (posts w) = HttpResponse status text (Inr v)"
    and "status = 200 \<or> status = 201" and "\<forall>kvs. v \<noteq> JObj kvs"
  shows "create_rule cfg existing_rules name date_str w =
           (Inl (PyError AttributeError (quoted (py_type_name v) @ '' object has no attribute '' @ quoted ''get'')),
            w\<lparr>out := out w @ [HttpPost (api_url cfg) (post_headers cfg) (rule_json cfg name y m d)],
              posts := Suc (posts w)\<rparr>)"
  using assms by (cases v) (auto simp: create_rule_def trace_simps)

theorem create_rule_raises_witness:
  "Map.empty ''Sukkos (5785)'' = (None :: json option) \<and>
   parse_date ''2024-10-17'' = Some (2024, 10, 17) \<and>
   post_reply (\<lparr>out = [], get_reply = HttpError ''unused'', post_reply = (\<lambda>_. HttpResponse 201 ''[]'' (Inr (JList []))), posts = 0\<rparr>)
     (posts (\<lparr>out = [], get_reply = HttpError ''unused'', post_reply = (\<lambda>_. HttpResponse 201 ''[]'' (Inr (JList []))), posts = 0\<rparr>)) = HttpResponse 201 ''[]'' (Inr (JList [])) \<and>
   ((201::int) = 200 \<or> (201::int) = 201) \<and> (\<forall>kvs. JList [] \<noteq> JObj kvs) \<and>
   fst (create_rule \<lparr>token = ''t'', device_id = ''d'', location_id = ''l'', virtual_switch_id = ''v''\<rparr> Map.empty ''Sukkos (5785)'' ''2024-10-17''
          (\<lparr>out = [], get_reply = HttpError ''unused'', post_reply = (\<lambda>_. HttpResponse 201 ''[]'' (Inr (JList []))), posts = 0\<rparr>)) =
   Inl (PyError AttributeError (quoted ''list'' @ '' object has no attribute '' @ quoted ''get''))"
proof -
  have h1: "Map.empty ''Sukkos (5785)'' = (None :: json option)" by simp
  have h2: "parse_date ''2024-10-17'' = Some (2024, 10, 17)" by code_simp
  have h3: "post_reply (\<lparr>out = [], get_reply = HttpError ''unused'', post_reply = (\<lambda>_. HttpResponse 201 ''[]'' (Inr (JList []))), posts = 0\<rparr>)
     (posts (\<lparr>out = [], get_reply = HttpError ''unused'', post_reply = (\<lambda>_. HttpResponse 201 ''[]'' (Inr (JList []))), posts = 0\<rparr>)) = HttpResponse 201 ''[]'' (Inr (JList []))"
    by simp
  have h4: "(201::int) = 200 \<or> (201::int) = 201" by simp
  have h5: "\<forall>kvs. JList [] \<noteq> JObj kvs" by simp
  show ?thesis using h1 h2 h3 h4 h5 create_rule_raises [where existing_rules = Map.empty and name = "''Sukkos (5785)''", OF h1 h2 h3 h4 h5] by simp
qed

subsection \<open>Effects of create_rule\<close>

lemma create_rule_cases:
  assumes "create_rule cfg idx name ds w = (r, w')"
  shows "(r = Inr () \<and> (\<exists>s. w' = py_print s w)) \<or>
         (\<exists>y m d s. idx name = None \<and> r = Inr () \<and>
            w' = time_sleep 1 (py_print s (snd (requests_post (api_url cfg) (post_headers cfg)
                                                 (rule_json cfg name y m d) w)))) \<or>
         (\<exists>y m d e. idx name = None \<and> r = Inl e \<and>
            w' = snd (requests_post (api_url cfg) (post_headers cfg) (rule_json cfg name y m d) w))"
proof (cases "idx name")
  case (Some rid)
  with assms show ?thesis by (auto simp: create_rule_def)
next
  case None
  show ?thesis
  proof (cases "parse_date ds")
    case None
    with \<open>idx name = None\<close> assms show ?thesis by (auto simp: create_rule_def)
  next
    case (Some t)
    then obtain y m d where t: "parse_date ds = Some (y, m, d)" by (cases t) auto
    obtain reply w1 where rp:
      "requests_post (api_url cfg) (post_headers cfg) (rule_json cfg name y m d) w = (reply, w1)"
      by fastforce
    show ?thesis
    proof (cases "post_result name reply")
      case (Inl e)
      with assms None t rp have "r = Inl e"
        and "w' = snd (requests_post (api_url cfg) (post_headers cfg) (rule_json cfg name y m d) w)"
        by (simp_all add: create_rule_def)
      with None show ?thesis by blast
    next
      case (Inr msg)
      with assms None t rp have "r = Inr ()"
        and "w' = time_sleep 1 (py_print msg (snd (requests_post (api_url cfg) (post_headers cfg)
                                                    (rule_json cfg name y m d) w)))"
        by (simp_all add: create_rule_def)
      with None show ?thesis by blast
    qed
  qed
qed

lemma create_rule_appends:
  assumes "create_rule cfg idx name ds w = (r, w')"
  shows "appends (fresh_post cfg idx) w w'"
proof -
  have post: "\<And>y m d. idx name = None \<Longrightarrow> appends (fresh_post cfg idx) w
      (snd (requests_post (api_url cfg) (post_headers cfg) (rule_json cfg name y m d) w))"
    by (rule appends_post) (simp add: rule_target_rule_json)
  from create_rule_cases [OF assms] show ?thesis
    by (auto intro: appends_trans [OF appends_trans [OF post appends_print] appends_sleep] post)
qed

lemma create_rule_throttled:
  "create_rule cfg idx name ds w = (Inr (), w') \<Longrightarrow> throttled_ext w w'"
  by (drule create_rule_cases) (auto simp: throttled_ext_def trace_simps)

subsection \<open>Exceptions of create_rule\<close>

lemma post_result_Inl:
  "post_result name reply = Inl e \<Longrightarrow> \<exists>m. e = PyError AttributeError m"
  by (cases reply) (auto split: if_splits sum.splits json.splits)

lemma create_rule_Inl:
  "create_rule cfg idx name ds w = (Inl e, w') \<Longrightarrow> \<exists>m. e = PyError AttributeError m"
  by (auto simp: create_rule_def dest: post_result_Inl split: option.splits prod.splits sum.splits)

end
