(* ===== verification/Driver.thy ===== *)
theory Driver
  imports Reader Creator
begin

text \<open>
  The main script (lines 147-183): fetch the index, open the CSV file, check its
  header through \<open>csv.DictReader\<close>, and for every row create the "first days"
  and the "last day" rule. The handlers at the end turn a missing file and any
  other \<open>Exception\<close> into a printed line and exit status 1; \<open>sys.exit(1)\<close> after
  a bad header is a \<open>SystemExit\<close>, which \<open>except Exception\<close> does not catch.
  \<open>main\<close> also holds the module-level configuration guard (lines 13-15), which
  runs first.
\<close>

section \<open>One row\<close>

text \<open>The rule names of lines 168 and 175.\<close>

definition first_days_name :: "string option \<Rightarrow> string option \<Rightarrow> string option \<Rightarrow> string" where
  "first_days_name yom_tov year last_day_date =
     (if py_truthy last_day_date
      then py_fmt_opt yom_tov @ '' First Days ('' @ py_fmt_opt year @ '')''
      else py_fmt_opt yom_tov @ '' ('' @ py_fmt_opt year @ '')'')"

definition last_day_name :: "string option \<Rightarrow> string option \<Rightarrow> string" where
  "last_day_name yom_tov year = py_fmt_opt yom_tov @ '' Last Day ('' @ py_fmt_opt year @ '')''"

text \<open>The body of the \<open>for\<close> loop (lines 159-176).\<close>

definition process_row ::
  "config \<Rightarrow> rules_index \<Rightarrow> string list \<Rightarrow> string list \<Rightarrow> world \<Rightarrow> (pyexc + unit) \<times> world" where
  "process_row cfg existing_rules fieldnames row w =
     (case row_fields (dict_row fieldnames row) of
        Inl e \<Rightarrow> (Inl e, w)
      | Inr (year, yom_tov, first_days_date, last_day_date) \<Rightarrow>
          (let (r1, w1) =
             (case truthy_val first_days_date of
                None \<Rightarrow>
                  (Inr (), py_print (''Skipping '' @ py_fmt_opt yom_tov @ '' ('' @ py_fmt_opt year @
                                     '') First Days: No start date provided.'') w)
              | Some s \<Rightarrow>
                  create_rule cfg existing_rules (first_days_name yom_tov year last_day_date) s w)
           in case r1 of
                Inl e \<Rightarrow> (Inl e, w1)
              | Inr () \<Rightarrow>
                  (case truthy_val last_day_date of
                     None \<Rightarrow>
                       (Inr (), py_print (''Skipping '' @ py_fmt_opt yom_tov @ '' ('' @ py_fmt_opt year @
                                          '') Last Day: No last day date provided.'') w1)
                   | Some s \<Rightarrow> create_rule cfg existing_rules (last_day_name yom_tov year) s w1)))"

text \<open>
  \<open>for row in reader\<close>: blank rows are skipped by \<open>DictReader\<close>
  (\<open>while row == []\<close>); an exception ends the loop.
\<close>

fun process_rows ::
  "config \<Rightarrow> rules_index \<Rightarrow> string list \<Rightarrow> string list list \<Rightarrow> world \<Rightarrow> (pyexc + unit) \<times> world" where
  "process_rows cfg existing_rules fieldnames [] w = (Inr (), w)"
| "process_rows cfg existing_rules fieldnames (row # rows) w =
     (if row = [] then process_rows cfg existing_rules fieldnames rows w
      else (case process_row cfg existing_rules fieldnames row w of
              (Inl e, w1) \<Rightarrow> (Inl e, w1)
            | (Inr (), w1) \<Rightarrow> process_rows cfg existing_rules fieldnames rows w1))"

text \<open>
  The same loop as the code runs it: \<open>for row in reader\<close> calls
  \<open>next(reader)\<close> (\<open>dict_reader_next\<close>, which skips blank rows) until it raises
  \<open>StopIteration\<close>. Each call consumes at least one row, which is the measure of
  the termination proof.
\<close>

function reader_loop ::
  "config \<Rightarrow> rules_index \<Rightarrow> string list \<Rightarrow> string list list \<Rightarrow> world \<Rightarrow> (pyexc + unit) \<times> world" where
  "reader_loop cfg existing_rules fieldnames rows w =
     (case dict_reader_next rows of
        None \<Rightarrow> (Inr (), w)
      | Some (row, rest) \<Rightarrow>
          (case process_row cfg existing_rules fieldnames row w of
             (Inl e, w1) \<Rightarrow> (Inl e, w1)
           | (Inr (), w1) \<Rightarrow> reader_loop cfg existing_rules fieldnames rest w1))"
  by pat_completeness auto

termination
  by (relation "measure (\<lambda>(cfg, idx, fns, rows, w). length rows)") (auto dest: dict_reader_next_length)

declare reader_loop.simps [simp del]

section \<open>The try block and the script\<close>

text \<open>
  Lines 151-176. \<open>reader.fieldnames\<close> is the first row (\<open>None\<close> for an empty
  file, which makes \<open>issubset\<close> raise \<open>TypeError\<close>).
\<close>

definition run_csv :: "config \<Rightarrow> rules_index \<Rightarrow> csv_source \<Rightarrow> world \<Rightarrow> (pyexc + unit) \<times> world" where
  "run_csv cfg existing_rules src w =
     (case src of
        CsvNotFound \<Rightarrow>
          (Inl (PyError FileNotFoundError
                  (''[Errno 2] No such file or directory: '' @ quoted CSV_FILE)), w)
      | CsvOpenError msg \<Rightarrow> (Inl (PyError OSError msg), w)
      | CsvRows rows err \<Rightarrow>
          (case rows of
             [] \<Rightarrow>
               (case err of
                  Some msg \<Rightarrow> (Inl (PyError CsvError msg), w)
                | None \<Rightarrow>
                    (Inl (PyError TypeError (quoted ''NoneType'' @ '' object is not iterable'')), w))
           | fieldnames # data \<Rightarrow>
               if \<not> set expected_headers \<subseteq> set fieldnames
               then (Inl (SystemExit 1), py_print headers_error_msg w)
               else
                 (case reader_loop cfg existing_rules fieldnames data w of
                    (Inl e, w1) \<Rightarrow> (Inl e, w1)
                  | (Inr (), w1) \<Rightarrow>
                      (case err of
                         None \<Rightarrow> (Inr (), w1)
                       | Some msg \<Rightarrow> (Inl (PyError CsvError msg), w1)))))"

text \<open>
  The whole script: its exit status and the final world. An exception that
  escapes \<open>get_existing_rules\<close> (line 148, outside the \<open>try\<close>) ends the process
  with a traceback and status 1.
\<close>

definition main :: "env \<Rightarrow> csv_source \<Rightarrow> world \<Rightarrow> int \<times> world" where
  "main env src w =
     (case load_config env of
        None \<Rightarrow> (1, py_print config_error_msg w)
      | Some cfg \<Rightarrow>
          (case get_existing_rules cfg w of
             (Inl e, w1) \<Rightarrow> (1, emit (Traceback e) w1)
           | (Inr existing_rules, w1) \<Rightarrow>
               (case run_csv cfg existing_rules src w1 of
                  (Inr (), w2) \<Rightarrow> (0, w2)
                | (Inl (SystemExit c), w2) \<Rightarrow> (c, w2)
                | (Inl (PyError k msg), w2) \<Rightarrow>
                    if k = FileNotFoundError
                    then (1, py_print (''Error: CSV file '' @ quoted CSV_FILE @ '' not found.'') w2)
                    else (1, py_print (''Unexpected error: '' @ msg) w2))))"

section \<open>Lemmas\<close>

subsection \<open>Relations every step of the loop keeps\<close>

text \<open>
  A relation on worlds that is a preorder, holds for a \<open>print\<close> and for every
  call of \<open>create_rule\<close> whose outcome satisfies \<open>Q\<close>, holds between the
  world before and after a row, the loop and the \<open>try\<close> block.
\<close>

lemma process_row_preserves:
  assumes run: "process_row cfg idx fns row w = (r, w')" and q: "Q r"
    and refl: "\<And>v. R v v"
    and trans: "\<And>v1 v2 v3. R v1 v2 \<Longrightarrow> R v2 v3 \<Longrightarrow> R v1 v3"
    and print: "\<And>v s. R v (py_print s v)"
    and create: "\<And>name ds v v1 r1. create_rule cfg idx name ds v = (r1, v1) \<Longrightarrow> Q r1 \<Longrightarrow> R v v1"
    and qi: "Q (Inr ())"
  shows "R w w'"
proof (cases "row_fields (dict_row fns row)")
  case (Inl e)
  with run refl show ?thesis by (simp add: process_row_def)
next
  case (Inr fs)
  obtain year yt fd ld where fs: "fs = (year, yt, fd, ld)" by (cases fs) auto
  obtain r1 w1 where first:
    "(case truthy_val fd of
        None \<Rightarrow> (Inr (), py_print (''Skipping '' @ py_fmt_opt yt @ '' ('' @ py_fmt_opt year @
                                   '') First Days: No start date provided.'') w)
      | Some s \<Rightarrow> create_rule cfg idx (first_days_name yt year ld) s w) = (r1, w1)"
    by fastforce
  have run': "(case r1 of
                Inl e \<Rightarrow> (Inl e, w1)
              | Inr () \<Rightarrow>
                  (case truthy_val ld of
                     None \<Rightarrow>
                       (Inr (), py_print (''Skipping '' @ py_fmt_opt yt @ '' ('' @ py_fmt_opt year @
                                          '') Last Day: No last day date provided.'') w1)
                   | Some s \<Rightarrow> create_rule cfg idx (last_day_name yt year) s w1)) = (r, w')"
    using run Inr fs first by (simp add: process_row_def)
  have step1: "Q r1 \<Longrightarrow> R w w1"
    using first print create by (auto split: option.splits)
  show ?thesis
  proof (cases r1)
    case (Inl e)
    with run' q step1 show ?thesis by simp
  next
    case (Inr u)
    then have r1: "r1 = Inr ()" by simp
    with qi step1 have a: "R w w1" by simp
    have "R w1 w'"
      using run' r1 q print create by (auto split: option.splits)
    with a trans show ?thesis by blast
  qed
qed

lemma process_rows_step:
  "row \<noteq> [] \<Longrightarrow> process_row cfg idx fns row w = (Inr (), w1) \<Longrightarrow>
   process_rows cfg idx fns (row # rows) w = process_rows cfg idx fns rows w1"
  by simp

lemma reader_loop_process_rows [simp]:
  "reader_loop cfg idx fns rows w = process_rows cfg idx fns rows w"
proof (induction rows arbitrary: w)
  case Nil
  then show ?case by (simp add: reader_loop.simps dict_reader_next_dropWhile)
next
  case (Cons row rows)
  show ?case
  proof (cases "row = []")
    case True
    then have "dict_reader_next (row # rows) = dict_reader_next rows"
      by (simp add: dict_reader_next_dropWhile)
    then have "reader_loop cfg idx fns (row # rows) w = reader_loop cfg idx fns rows w"
      by (simp add: reader_loop.simps [of _ _ _ "row # rows"] reader_loop.simps [of _ _ _ rows])
    with True Cons.IH show ?thesis by simp
  next
    case False
    then have "dict_reader_next (row # rows) = Some (row, rows)"
      by (simp add: dict_reader_next_dropWhile)
    with False Cons.IH show ?thesis
      by (simp add: reader_loop.simps [of _ _ _ "row # rows"] split: prod.split sum.split)
  qed
qed

lemma process_rows_preserves:
  assumes run: "process_rows cfg idx fns rows w = (r, w')" and q: "Q r"
    and refl: "\<And>v. R v v"
    and trans: "\<And>v1 v2 v3. R v1 v2 \<Longrightarrow> R v2 v3 \<Longrightarrow> R v1 v3"
    and print: "\<And>v s. R v (py_print s v)"
    and create: "\<And>name ds v v1 r1. create_rule cfg idx name ds v = (r1, v1) \<Longrightarrow> Q r1 \<Longrightarrow> R v v1"
    and qi: "Q (Inr ())"
  shows "R w w'"
  using run q
proof (induction rows arbitrary: w)
  case Nil
  then show ?case using refl by simp
next
  case (Cons row rows)
  show ?case
  proof (cases "row = []")
    case True
    with Cons show ?thesis by simp
  next
    case False
    obtain r1 w1 where pr: "process_row cfg idx fns row w = (r1, w1)" by fastforce
    have rw: "R w w1" if "Q r1"
      using pr that refl trans print create qi by (rule process_row_preserves [where Q = Q and R = R])
    show ?thesis
    proof (cases r1)
      case (Inl e)
      with Cons.prems(1) False pr have "r = r1" "w' = w1" by simp_all
      with rw Cons.prems(2) show ?thesis by simp
    next
      case (Inr u)
      then have r1: "r1 = Inr ()" by simp
      have rest: "process_rows cfg idx fns rows w1 = (r, w')"
        using process_rows_step [OF False pr [unfolded r1], of rows] Cons.prems(1) by simp
      from rw r1 qi have "R w w1" by simp
      with Cons.IH [OF rest Cons.prems(2)] trans show ?thesis by blast
    qed
  qed
qed

lemma run_csv_preserves:
  assumes run: "run_csv cfg idx src w = (r, w')" and q: "Q r"
    and refl: "\<And>v. R v v"
    and trans: "\<And>v1 v2 v3. R v1 v2 \<Longrightarrow> R v2 v3 \<Longrightarrow> R v1 v3"
    and print: "\<And>v s. R v (py_print s v)"
    and create: "\<And>name ds v v1 r1. create_rule cfg idx name ds v = (r1, v1) \<Longrightarrow> Q r1 \<Longrightarrow> R v v1"
    and qi: "Q (Inr ())"
  shows "R w w'"
proof -
  have rows: "R w w1" if "process_rows cfg idx fns data w = (r1, w1)" "Q r1 \<or> r1 = Inr ()" for fns data r1 w1
  proof -
    have "Q r1" using that qi by blast
    with that(1) show ?thesis
      using refl trans print create qi by (rule process_rows_preserves [where Q = Q and R = R])
  qed
  show ?thesis
  proof (cases src)
    case (CsvRows rows err)
    show ?thesis
    proof (cases rows)
      case Nil
      with run CsvRows refl show ?thesis by (simp add: run_csv_def split: option.splits)
    next
      case (Cons fns data)
      show ?thesis
      proof (cases "set expected_headers \<subseteq> set fns")
        case False
        with run CsvRows Cons print show ?thesis by (auto simp: run_csv_def)
      next
        case True
        obtain r1 w1 where pr: "process_rows cfg idx fns data w = (r1, w1)" by fastforce
        have out: "w' = w1" "r1 = Inr () \<or> r1 = r"
          using run CsvRows Cons True pr
          by (simp_all add: run_csv_def split: sum.splits option.splits)
        with pr q rows show ?thesis by blast
      qed
    qed
  qed (use run refl in \<open>simp_all add: run_csv_def\<close>)
qed

subsection \<open>One row\<close>

text \<open>
  C6: a row with both dates creates the "First Days" rule and then, unless
  that call raised, the "Last Day" rule: two calls of \<open>create_rule\<close>, with
  these names and dates.
\<close>

theorem process_row_both_dates:
  assumes "fd \<noteq> []" and "ld \<noteq> []"
  shows "process_row cfg idx expected_headers [y, t, fd, ld] w =
           (case create_rule cfg idx (t @ '' First Days ('' @ y @ '')'') fd w of
              (Inl e, w1) \<Rightarrow> (Inl e, w1)
            | (Inr (), w1) \<Rightarrow> create_rule cfg idx (t @ '' Last Day ('' @ y @ '')'') ld w1)"
  using assms
  by (simp add: process_row_def row_fields_full first_days_name_def last_day_name_def py_truthy_def
           split: prod.split sum.split)

theorem process_row_both_dates_witness:
  "''2024-10-17'' \<noteq> [] \<and> ''2024-10-24'' \<noteq> [] \<and>
   process_row (\<lparr>token = ''t'', device_id = ''d'', location_id = ''l'', virtual_switch_id = ''v''\<rparr>) Map.empty expected_headers [''5785'', ''Sukkos'', ''2024-10-17'', ''2024-10-24''] (\<lparr>out = [], get_reply = HttpError ''unused'', post_reply = (\<lambda>_. HttpError ''down''), posts = 0\<rparr>) =
     (case create_rule (\<lparr>token = ''t'', device_id = ''d'', location_id = ''l'', virtual_switch_id = ''v''\<rparr>) Map.empty (''Sukkos'' @ '' First Days ('' @ ''5785'' @ '')'') ''2024-10-17'' (\<lparr>out = [], get_reply = HttpError ''unused'', post_reply = (\<lambda>_. HttpError ''down''), posts = 0\<rparr>) of
        (Inl e, w1) \<Rightarrow> (Inl e, w1)
      | (Inr (), w1) \<Rightarrow> create_rule (\<lparr>token = ''t'', device_id = ''d'', location_id = ''l'', virtual_switch_id = ''v''\<rparr>) Map.empty (''Sukkos'' @ '' Last Day ('' @ ''5785'' @ '')'') ''2024-10-24'' w1)"
  using process_row_both_dates [of "''2024-10-17''" "''2024-10-24''" "\<lparr>token = ''t'', device_id = ''d'', location_id = ''l'', virtual_switch_id = ''v''\<rparr>" Map.empty "''5785''" "''Sukkos''" "\<lparr>out = [], get_reply = HttpError ''unused'', post_reply = (\<lambda>_. HttpError ''down''), posts = 0\<rparr>"]
  by simp

text \<open>
  C7: a row whose last-day field is empty or missing (a short row, read with
  \<open>restval = None\<close>) creates one rule, named without "First Days", and then
  reports that the last day is skipped.
\<close>

theorem process_row_first_only:
  assumes "row = [y, t, fd] \<or> row = [y, t, fd, []]" and "fd \<noteq> []"
  shows "process_row cfg idx expected_headers row w =
           (case create_rule cfg idx (t @ '' ('' @ y @ '')'') fd w of
              (Inl e, w1) \<Rightarrow> (Inl e, w1)
            | (Inr (), w1) \<Rightarrow>
                (Inr (), py_print (''Skipping '' @ t @ '' ('' @ y @ '') Last Day: No last day date provided.'') w1))"
  using assms
  by (auto simp: process_row_def row_fields_full row_fields_short first_days_name_def py_truthy_def
           split: prod.split sum.split)

theorem process_row_first_only_witness:
  "([''5785'', ''Shavuos'', ''2025-06-01''] = [''5785'', ''Shavuos'', ''2025-06-01''] \<or>
    [''5785'', ''Shavuos'', ''2025-06-01''] = [''5785'', ''Shavuos'', ''2025-06-01'', []]) \<and>
   ''2025-06-01'' \<noteq> [] \<and>
   process_row (\<lparr>token = ''t'', device_id = ''d'', location_id = ''l'', virtual_switch_id = ''v''\<rparr>) Map.empty expected_headers [''5785'', ''Shavuos'', ''2025-06-01''] (\<lparr>out = [], get_reply = HttpError ''unused'', post_reply = (\<lambda>_. HttpError ''down''), posts = 0\<rparr>) =
     (case create_rule (\<lparr>token = ''t'', device_id = ''d'', location_id = ''l'', virtual_switch_id = ''v''\<rparr>) Map.empty (''Shavuos'' @ '' ('' @ ''5785'' @ '')'') ''2025-06-01'' (\<lparr>out = [], get_reply = HttpError ''unused'', post_reply = (\<lambda>_. HttpError ''down''), posts = 0\<rparr>) of
        (Inl e, w1) \<Rightarrow> (Inl e, w1)
      | (Inr (), w1) \<Rightarrow>
          (Inr (), py_print (''Skipping '' @ ''Shavuos'' @ '' ('' @ ''5785'' @ '') Last Day: No last day date provided.'') w1))"
  using process_row_first_only [of "[''5785'', ''Shavuos'', ''2025-06-01'']" "''5785''" "''Shavuos''" "''2025-06-01''" "\<lparr>token = ''t'', device_id = ''d'', location_id = ''l'', virtual_switch_id = ''v''\<rparr>" Map.empty "\<lparr>out = [], get_reply = HttpError ''unused'', post_reply = (\<lambda>_. HttpError ''down''), posts = 0\<rparr>"]
  by simp

subsection \<open>The try block\<close>

lemma run_csv_appends:
  "run_csv cfg idx src w = (r, w') \<Longrightarrow> appends (fresh_post cfg idx) w w'"
  by (erule run_csv_preserves [where Q = "\<lambda>_. True"]) (auto intro: appends_trans create_rule_appends)

lemma run_csv_throttled:
  "run_csv cfg idx src w = (Inr (), w') \<Longrightarrow> throttled_ext w w'"
  by (erule run_csv_preserves [where Q = "\<lambda>r. r = Inr ()"]) (auto intro: throttled_ext_trans create_rule_throttled)

lemma process_row_Inl:
  assumes "process_row cfg idx fns row w = (Inl e, w')"
  shows "\<exists>k m. e = PyError k m"
proof (cases "row_fields (dict_row fns row)")
  case (Inl e')
  with assms show ?thesis by (auto simp: process_row_def dest!: row_fields_Inl)
next
  case (Inr fs)
  with assms show ?thesis
    by (auto simp: process_row_def dest!: create_rule_Inl split: prod.splits option.splits sum.splits)
qed

lemma process_rows_Inl:
  "process_rows cfg idx fns rows w = (Inl e, w') \<Longrightarrow> \<exists>k m. e = PyError k m"
proof (induction rows arbitrary: w)
  case (Cons row rows)
  then show ?case
    by (auto dest: process_row_Inl split: if_splits prod.splits sum.splits)
qed simp

lemma run_csv_SystemExit:
  "run_csv cfg idx src w = (Inl (SystemExit c), w') \<Longrightarrow> c = 1 \<and> w' = py_print headers_error_msg w"
  by (auto simp: run_csv_def dest: process_rows_Inl
           split: csv_source.splits list.splits option.splits if_splits prod.splits sum.splits)

lemma process_row_Inl_header:
  assumes "set expected_headers \<subseteq> set fns" and "process_row cfg idx fns row w = (Inl e, w')"
  shows "\<exists>m. e = PyError AttributeError m"
proof -
  obtain year yt fd ld where f: "row_fields (dict_row fns row) = Inr (year, yt, fd, ld)"
    using row_fields_header [OF assms(1)] by (metis prod_cases4)
  with assms(2) show ?thesis
    by (auto simp: process_row_def dest!: create_rule_Inl split: prod.splits option.splits sum.splits)
qed

lemma process_rows_Inl_header:
  "set expected_headers \<subseteq> set fns \<Longrightarrow> process_rows cfg idx fns rows w = (Inl e, w') \<Longrightarrow>
   \<exists>m. e = PyError AttributeError m"
proof (induction rows arbitrary: w)
  case (Cons row rows)
  then show ?case
    by (auto dest: process_row_Inl_header split: if_splits prod.splits sum.splits)
qed simp

text \<open>
  C13: the header check makes the lookups of lines 159-162 total: whatever the
  file holds, no \<open>KeyError\<close> comes out of the \<open>try\<close> block, since a row dict
  has every header name as a key (from the row, or as \<open>restval\<close> for a short
  row).
\<close>

theorem run_csv_no_key_error:
  "run_csv cfg idx src w = (Inl (PyError k m), w') \<Longrightarrow> k \<noteq> KeyError"
  by (auto simp: run_csv_def dest: process_rows_Inl_header
           split: csv_source.splits list.splits option.splits if_splits prod.splits sum.splits)

theorem run_csv_no_key_error_witness:
  "run_csv (\<lparr>token = ''t'', device_id = ''d'', location_id = ''l'', virtual_switch_id = ''v''\<rparr>) Map.empty CsvNotFound (\<lparr>out = [], get_reply = HttpError ''unused'', post_reply = (\<lambda>_. HttpError ''down''), posts = 0\<rparr>) =
     (Inl (PyError FileNotFoundError (''[Errno 2] No such file or directory: '' @ quoted CSV_FILE)), \<lparr>out = [], get_reply = HttpError ''unused'', post_reply = (\<lambda>_. HttpError ''down''), posts = 0\<rparr>) \<and>
   FileNotFoundError \<noteq> KeyError"
proof -
  have h: "run_csv (\<lparr>token = ''t'', device_id = ''d'', location_id = ''l'', virtual_switch_id = ''v''\<rparr>) Map.empty CsvNotFound (\<lparr>out = [], get_reply = HttpError ''unused'', post_reply = (\<lambda>_. HttpError ''down''), posts = 0\<rparr>) =
     (Inl (PyError FileNotFoundError (''[Errno 2] No such file or directory: '' @ quoted CSV_FILE)), \<lparr>out = [], get_reply = HttpError ''unused'', post_reply = (\<lambda>_. HttpError ''down''), posts = 0\<rparr>)"
    by (simp add: run_csv_def)
  show ?thesis using run_csv_no_key_error [OF h] h by simp
qed

subsection \<open>The script\<close>

lemma main_appends:
  assumes cfg: "load_config env = Some cfg" and idx: "fst (get_existing_rules cfg w) = Inr idx"
  shows "appends (fresh_post cfg idx) w (snd (main env src w))"
proof -
  obtain w1 where g: "get_existing_rules cfg w = (Inr idx, w1)"
    using idx by (cases "get_existing_rules cfg w") auto
  have a1: "appends (fresh_post cfg idx) w w1"
    using g by (rule get_existing_rules_appends) simp_all
  obtain r w2 where rc: "run_csv cfg idx src w1 = (r, w2)" by fastforce
  have a2: "appends (fresh_post cfg idx) w1 w2"
    using rc by (rule run_csv_appends)
  have a3: "appends (fresh_post cfg idx) w2 (snd (main env src w))"
    using cfg g rc by (auto simp: main_def split: sum.splits pyexc.splits)
  from a1 a2 a3 show ?thesis by (blast intro: appends_trans)
qed

lemma main_extends:
  assumes "load_config env = Some cfg" and "get_existing_rules cfg w = (r, w1)"
  shows "\<exists>es. out (snd (main env src w)) = out w1 @ es"
proof (cases r)
  case (Inl e)
  with assms show ?thesis by (simp add: main_def trace_simps)
next
  case (Inr idx)
  obtain r' w2 where rc: "run_csv cfg idx src w1 = (r', w2)" by fastforce
  have a2: "appends (\<lambda>_. True) w1 w2"
    using rc by (rule run_csv_appends [THEN appends_mono]) simp
  have a3: "appends (\<lambda>_. True) w2 (snd (main env src w))"
    using assms Inr rc by (auto simp: main_def split: sum.splits pyexc.splits)
  from appends_trans [OF a2 a3] show ?thesis by (auto dest: appends_out)
qed

end
