(* ===== verification/Rows.thy ===== *)
theory Rows
  imports Driver
begin

text \<open>
  An abstract reading of the row loop of the main script (lines 158-176): a
  row of the documented file is read by position, not through the
  \<open>DictReader\<close> dict, and becomes the actions it asks for, "create this rule
  for this date" or "print this skip line". The loop is the sequential run of
  the actions of its non-blank rows. \<open>reader_loop_refines\<close> shows that the
  code's loop implements this reading; \<open>run_actions_posts\<close> says which rules
  such a run POSTs.
\<close>

section \<open>Rows as actions\<close>

definition field_at :: "string list \<Rightarrow> nat \<Rightarrow> string option" where
  "field_at row i = (if i < length row then Some (row ! i) else None)"

datatype row_action = CreateRule string string | SkipLine string

definition field_actions ::
  "string option \<Rightarrow> string option \<Rightarrow> string option \<Rightarrow> string option \<Rightarrow> row_action list" where
  "field_actions year yom_tov first_days_date last_day_date =
     [case truthy_val first_days_date of
        None \<Rightarrow> SkipLine (''Skipping '' @ py_fmt_opt yom_tov @ '' ('' @ py_fmt_opt year @
                          '') First Days: No start date provided.'')
      | Some s \<Rightarrow> CreateRule (first_days_name yom_tov year last_day_date) s,
      case truthy_val last_day_date of
        None \<Rightarrow> SkipLine (''Skipping '' @ py_fmt_opt yom_tov @ '' ('' @ py_fmt_opt year @
                          '') Last Day: No last day date provided.'')
      | Some s \<Rightarrow> CreateRule (last_day_name yom_tov year) s]"

definition row_actions :: "string list \<Rightarrow> row_action list" where
  "row_actions row = field_actions (field_at row 0) (field_at row 1) (field_at row 2) (field_at row 3)"

fun run_actions :: "config \<Rightarrow> rules_index \<Rightarrow> row_action list \<Rightarrow> world \<Rightarrow> (pyexc + unit) \<times> world" where
  "run_actions cfg idx [] w = (Inr (), w)"
| "run_actions cfg idx (SkipLine s # as) w = run_actions cfg idx as (py_print s w)"
| "run_actions cfg idx (CreateRule n d # as) w =
     (case create_rule cfg idx n d w of
        (Inl e, w1) \<Rightarrow> (Inl e, w1)
      | (Inr (), w1) \<Rightarrow> run_actions cfg idx as w1)"

text \<open>The rule JSONs a run of actions POSTs: one per new name with a parsable date.\<close>

fun requested_posts :: "config \<Rightarrow> rules_index \<Rightarrow> row_action list \<Rightarrow> json list" where
  "requested_posts cfg idx [] = []"
| "requested_posts cfg idx (SkipLine s # as) = requested_posts cfg idx as"
| "requested_posts cfg idx (CreateRule n d # as) =
     (case (idx n, parse_date d) of
        (None, Some (y, m, dd)) \<Rightarrow> rule_json cfg n y m dd # requested_posts cfg idx as
      | _ \<Rightarrow> requested_posts cfg idx as)"

text \<open>
  A reply to a POST that \<open>create_rule\<close> handles without raising: anything but a
  200/201 reply whose JSON body is not an object.
\<close>

fun reply_ok :: "http_reply \<Rightarrow> bool" where
  "reply_ok (HttpResponse st txt (Inr (JObj kvs))) = True"
| "reply_ok (HttpResponse st txt (Inr v)) = (st \<noteq> 200 \<and> st \<noteq> 201)"
| "reply_ok r = True"

text \<open>The bodies of the POSTs of a trace, in order.\<close>

fun posts_of :: "effect list \<Rightarrow> json list" where
  "posts_of [] = []"
| "posts_of (HttpPost u hs b # es) = b # posts_of es"
| "posts_of (e # es) = posts_of es"

text \<open>The rule names the \<open>create_rule\<close> calls of a run of actions ask for, in order.\<close>

fun action_names :: "row_action list \<Rightarrow> string list" where
  "action_names [] = []"
| "action_names (CreateRule n d # as) = n # action_names as"
| "action_names (SkipLine s # as) = action_names as"

section \<open>Lemmas\<close>

lemma field_at_simps [simp]:
  "field_at [] i = None" "field_at (a # r) 0 = Some a" "field_at (a # r) (Suc i) = field_at r i"
  by (simp_all add: field_at_def)

lemma row_shapes:
  obtains "row = []" | a where "row = [a]" | a b where "row = [a, b]" | a b c where "row = [a, b, c]"
    | a b c d rest where "row = a # b # c # d # rest"
  by (cases row; cases "tl row"; cases "tl (tl row)"; cases "tl (tl (tl row))") auto

lemma row_fields_expected:
  "row_fields (dict_row expected_headers row) =
     Inr (field_at row 0, field_at row 1, field_at row 2, field_at row 3)"
  by (cases row rule: row_shapes)
     (simp_all add: row_fields_def row_get_def dict_row_def expected_headers_def field_at_def)

lemma process_row_fields:
  assumes "row_fields (dict_row fns row) = Inr (year, yom_tov, fd, ld)"
  shows "process_row cfg idx fns row w = run_actions cfg idx (field_actions year yom_tov fd ld) w"
proof (cases "truthy_val fd")
  case None
  with assms show ?thesis
    by (cases "truthy_val ld") (simp_all add: process_row_def field_actions_def split: prod.split sum.split)
next
  case (Some s)
  obtain r1 w1 where c: "create_rule cfg idx (first_days_name yom_tov year ld) s w = (r1, w1)"
    by fastforce
  with assms Some show ?thesis
    by (cases r1; cases "truthy_val ld") (simp_all add: process_row_def field_actions_def split: prod.split sum.split)
qed

lemma process_row_actions:
  "process_row cfg idx expected_headers row w = run_actions cfg idx (row_actions row) w"
  unfolding row_actions_def by (rule process_row_fields [OF row_fields_expected])

lemma run_actions_append:
  "run_actions cfg idx (as @ bs) w =
     (case run_actions cfg idx as w of
        (Inl e, w1) \<Rightarrow> (Inl e, w1)
      | (Inr (), w1) \<Rightarrow> run_actions cfg idx bs w1)"
  by (induction cfg idx as w rule: run_actions.induct) (simp_all split: prod.split sum.split)

lemma process_rows_actions:
  "process_rows cfg idx expected_headers rows w =
     run_actions cfg idx (concat (map row_actions (filter (\<lambda>r. r \<noteq> []) rows))) w"
  by (induction rows arbitrary: w) (simp_all add: run_actions_append process_row_actions split: prod.split sum.split)

text \<open>
  C3: the loop of the main script as the code runs it, \<open>for row in reader\<close>
  over a file with the documented header, is the run of the actions of its
  non-blank rows read by position: blank rows are skipped, short rows read the
  missing fields as \<open>None\<close>, extra fields are ignored, and an exception ends
  the loop.
\<close>

theorem reader_loop_refines:
  "reader_loop cfg idx expected_headers rows w =
     run_actions cfg idx (concat (map row_actions (filter (\<lambda>r. r \<noteq> []) rows))) w"
  by (simp add: process_rows_actions)

lemma posts_of_append [simp]: "posts_of (xs @ ys) = posts_of xs @ posts_of ys"
  by (induction xs rule: posts_of.induct) simp_all

lemma post_result_reply_ok: "reply_ok r \<Longrightarrow> \<exists>msg. post_result name r = Inr msg"
  by (cases r rule: reply_ok.cases) auto

lemma create_rule_reply_ok:
  assumes "reply_ok (post_reply w (posts w))"
  shows "\<exists>w'. create_rule cfg idx n d w = (Inr (), w') \<and> post_reply w' = post_reply w \<and>
           posts_of (out w') = posts_of (out w) @ requested_posts cfg idx [CreateRule n d]"
proof -
  obtain msg where "post_result n (post_reply w (posts w)) = Inr msg"
    using post_result_reply_ok [OF assms] by blast
  then show ?thesis
    by (auto simp: create_rule_def trace_simps
             split: option.split)
qed

text \<open>
  C15: when no 200/201 reply to a POST has a non-object body, a run of actions
  completes and POSTs, in order, the rule JSON of every action that creates a
  new name with a parsable date, and nothing else.
\<close>

theorem run_actions_posts:
  assumes "\<forall>k. reply_ok (post_reply w k)"
  shows "fst (run_actions cfg idx as w) = Inr () \<and>
         posts_of (out (snd (run_actions cfg idx as w))) = posts_of (out w) @ requested_posts cfg idx as"
  using assms
proof (induction cfg idx as w rule: run_actions.induct)
  case (2 cfg idx s as w)
  then show ?case by (simp add: trace_simps)
next
  case (3 cfg idx n d as w)
  from create_rule_reply_ok [of w cfg idx n d] "3.prems" obtain w' where
    c: "create_rule cfg idx n d w = (Inr (), w')" and r: "post_reply w' = post_reply w"
    and p: "posts_of (out w') = posts_of (out w) @ requested_posts cfg idx [CreateRule n d]"
    by blast
  have "requested_posts cfg idx (CreateRule n d # as) =
          requested_posts cfg idx [CreateRule n d] @ requested_posts cfg idx as"
    by (simp split: option.split prod.split)
  with "3.IH" [OF c [symmetric] refl] "3.prems" c r p show ?case by simp
qed simp

lemma get_existing_rules_posts_of:
  "get_existing_rules cfg w = (r, w') \<Longrightarrow> posts_of (out w') = posts_of (out w) \<and> post_reply w' = post_reply w"
proof -
  assume g: "get_existing_rules cfg w = (r, w')"
  from get_existing_rules_trace [OF g] obtain ps where
    "out w' = out w @ HttpGet (api_url cfg) (get_headers cfg) # map Print ps" "post_reply w' = post_reply w"
    by blast
  moreover have "posts_of (map Print ps) = []" by (induction ps) simp_all
  ultimately show ?thesis by simp
qed

theorem run_actions_posts_witness:
  "(\<forall>k. reply_ok (post_reply (\<lparr>out = [], get_reply = HttpError ''unused'', post_reply = (\<lambda>_. HttpResponse 500 ''busy'' (Inl ''no JSON'')), posts = 0\<rparr>) k)) \<and>
   fst (run_actions (\<lparr>token = ''tok'', device_id = ''dev'', location_id = ''loc'', virtual_switch_id = ''vsw''\<rparr>) [''Pesach (5785)'' \<mapsto> JStr ''r1'']
          [CreateRule ''Pesach (5785)'' ''2025-04-12'', SkipLine ''x'', CreateRule ''Sukkos (5785)'' ''2024-10-17''] (\<lparr>out = [], get_reply = HttpError ''unused'', post_reply = (\<lambda>_. HttpResponse 500 ''busy'' (Inl ''no JSON'')), posts = 0\<rparr>)) = Inr () \<and>
   posts_of (out (snd (run_actions (\<lparr>token = ''tok'', device_id = ''dev'', location_id = ''loc'', virtual_switch_id = ''vsw''\<rparr>) [''Pesach (5785)'' \<mapsto> JStr ''r1'']
          [CreateRule ''Pesach (5785)'' ''2025-04-12'', SkipLine ''x'', CreateRule ''Sukkos (5785)'' ''2024-10-17''] (\<lparr>out = [], get_reply = HttpError ''unused'', post_reply = (\<lambda>_. HttpResponse 500 ''busy'' (Inl ''no JSON'')), posts = 0\<rparr>)))) =
     posts_of [] @ requested_posts (\<lparr>token = ''tok'', device_id = ''dev'', location_id = ''loc'', virtual_switch_id = ''vsw''\<rparr>) [''Pesach (5785)'' \<mapsto> JStr ''r1'']
          [CreateRule ''Pesach (5785)'' ''2025-04-12'', SkipLine ''x'', CreateRule ''Sukkos (5785)'' ''2024-10-17'']"
proof -
  have h: "\<forall>k. reply_ok (post_reply (\<lparr>out = [], get_reply = HttpError ''unused'', post_reply = (\<lambda>_. HttpResponse 500 ''busy'' (Inl ''no JSON'')), posts = 0\<rparr>) k)" by simp
  show ?thesis using run_actions_posts [OF h, of "\<lparr>token = ''tok'', device_id = ''dev'', location_id = ''loc'', virtual_switch_id = ''vsw''\<rparr>" "[''Pesach (5785)'' \<mapsto> JStr ''r1'']"
    "[CreateRule ''Pesach (5785)'' ''2025-04-12'', SkipLine ''x'', CreateRule ''Sukkos (5785)'' ''2024-10-17'']"] h
    by simp
qed

subsection \<open>How many POSTs a run sends\<close>

lemma create_rule_posts_within:
  "create_rule cfg idx name ds w = (r, w') \<Longrightarrow> posts_within 1 w w'"
  by (drule create_rule_cases) (auto simp: posts_within_def trace_simps)

lemma run_actions_posts_within:
  "run_actions cfg idx as w = (r, w') \<Longrightarrow> posts_within (length as) w w'"
proof (induction cfg idx as w arbitrary: r w' rule: run_actions.induct)
  case (2 cfg idx s as w)
  then have "posts_within (length as) (py_print s w) w'" by simp
  then have "posts_within (0 + length as) w w'"
    by (rule posts_within_trans [OF posts_within_print])
  then show ?case by (rule posts_within_mono) simp
next
  case (3 cfg idx n d as w)
  obtain r1 w1 where c: "create_rule cfg idx n d w = (r1, w1)" by fastforce
  note p1 = create_rule_posts_within [OF c]
  show ?case
  proof (cases r1)
    case (Inl e)
    with "3.prems" c have "w' = w1" by simp
    with p1 show ?thesis by (auto intro: posts_within_mono)
  next
    case (Inr u)
    with "3.prems" c have rest: "run_actions cfg idx as w1 = (r, w')" by simp
    have u: "u = ()" by simp
    from posts_within_trans [OF p1 "3.IH" [OF c [symmetric] Inr u rest]]
    show ?thesis by simp
  qed
qed auto

lemma process_row_posts_within:
  "process_row cfg idx fns row w = (r, w') \<Longrightarrow> posts_within 2 w w'"
proof (cases "row_fields (dict_row fns row)")
  case (Inl e)
  assume "process_row cfg idx fns row w = (r, w')"
  with Inl show ?thesis by (auto simp: process_row_def)
next
  case (Inr fs)
  assume run: "process_row cfg idx fns row w = (r, w')"
  obtain year yt fd ld where "fs = (year, yt, fd, ld)" by (cases fs) auto
  with Inr run have "run_actions cfg idx (field_actions year yt fd ld) w = (r, w')"
    by (simp add: process_row_fields)
  from run_actions_posts_within [OF this] show ?thesis by (simp add: field_actions_def numeral_2_eq_2)
qed

lemma process_rows_posts_within:
  "process_rows cfg idx fns rows w = (r, w') \<Longrightarrow> posts_within (2 * length rows) w w'"
proof (induction rows arbitrary: w)
  case (Cons row rows)
  show ?case
  proof (cases "row = []")
    case True
    with Cons have "posts_within (2 * length rows) w w'" by simp
    then show ?thesis by (rule posts_within_mono) simp
  next
    case False
    obtain r1 w1 where pr: "process_row cfg idx fns row w = (r1, w1)" by fastforce
    note p1 = process_row_posts_within [OF pr]
    show ?thesis
    proof (cases r1)
      case (Inl e)
      with Cons.prems False pr have "w' = w1" by simp
      with p1 show ?thesis by (auto intro: posts_within_mono)
    next
      case (Inr u)
      with Cons.prems False pr have "process_rows cfg idx fns rows w1 = (r, w')" by simp
      from posts_within_trans [OF p1 Cons.IH [OF this]] show ?thesis by simp
    qed
  qed
qed auto

lemma run_csv_posts_within:
  "run_csv cfg idx (CsvRows rows err) w = (r, w') \<Longrightarrow> posts_within (2 * (length rows - 1)) w w'"
  by (auto simp: run_csv_def dest: process_rows_posts_within
           split: list.splits if_splits prod.splits sum.splits option.splits)

lemma run_actions_known:
  "list_all (\<lambda>n. idx n \<noteq> None) (action_names as) \<Longrightarrow>
   \<exists>w'. run_actions cfg idx as w = (Inr (), w') \<and> posts_within 0 w w'"
proof (induction cfg idx as w rule: run_actions.induct)
  case (2 cfg idx s as w)
  then obtain w' where "run_actions cfg idx as (py_print s w) = (Inr (), w')"
    and "posts_within 0 (py_print s w) w'" by auto
  then show ?case using posts_within_trans [OF posts_within_print] by fastforce
next
  case (3 cfg idx n d as w)
  then obtain rid where rid: "idx n = Some rid" by auto
  let ?w1 = "py_print (''Rule '' @ quoted n @ '' already exists with ID: '' @ py_str rid @ ''. Skipping.'') w"
  have c: "create_rule cfg idx n d w = (Inr (), ?w1)" using rid by (simp add: create_rule_def)
  from "3.IH" [OF c [symmetric] refl refl] "3.prems" obtain w' where
    "run_actions cfg idx as ?w1 = (Inr (), w')" and "posts_within 0 ?w1 w'" by auto
  with c show ?case using posts_within_trans [OF posts_within_print] by fastforce
qed auto

end
