(* ===== verification/Spec2Isabelle.thy ===== *)
theory Spec2Isabelle
  imports Rows
begin

text \<open>
  \<^bold>\<open>A verification development of \<open>src/create_yom_tov_rules.py\<close>.\<close>

  The program is one Python script. At import time it reads four environment
  variables and exits when one is missing (lines 7-24). It then fetches the
  rules that already exist from the SmartThings Rules API (\<open>get_existing_rules\<close>,
  lines 26-55), opens \<open>yom_tov_dates.csv\<close> with \<open>csv.DictReader\<close>, checks its
  header, and for every row calls \<open>create_rule\<close> (lines 57-145) for the "first
  days" and the "last day" date (lines 147-183). \<open>create_rule\<close> skips a name
  the index holds, parses the date, POSTs a rule JSON, prints the outcome and
  sleeps one second.

  \<^bold>\<open>Theories.\<close>
  \<^item> \<open>Prelude\<close>: the rule collections \<open>py_simps\<close> (evaluation of the runtime
    model) and \<open>trace_simps\<close> (the trace an I/O operation leaves), type names
    (\<open>url\<close>, \<open>header\<close>, \<open>env\<close>) and generic list lemmas.
  \<^item> \<open>PyRuntime\<close>: the Python builtins the script relies on, at the call sites it
    uses them: \<open>int()\<close> on a string (\<open>py_int\<close>: whitespace, sign, underscores, the
    4300-digit limit), \<open>str.split\<close> (\<open>py_split\<close>), \<open>str()\<close> of an \<open>int\<close>
    (\<open>py_str_int\<close>), \<open>str()\<close>/\<open>repr()\<close> of decoded JSON (\<open>py_str\<close>, \<open>py_repr\<close>),
    truthiness and f-strings of \<open>str | None\<close> (\<open>truthy_val\<close>, \<open>py_fmt_opt\<close>), the
    JSON values \<open>response.json()\<close> returns (\<open>json\<close>). The whitespace \<open>int()\<close>
    strips (\<open>py_isspace\<close>) is C's \<open>isspace\<close> set 9-13 and 32 plus the two
    Latin-1 Unicode spaces 133 and 160 that CPython maps to a blank first; the
    separators 28-31 are not stripped. Its lemmas are the digit, decimal
    expansion and split/join facts the \<open>Creator\<close> proofs rest on.
  \<^item> \<open>Io\<close>: the world the script acts on. A \<open>world\<close> record holds the trace of
    effects in order (\<open>print\<close>, \<open>requests.get\<close>, \<open>requests.post\<close>,
    \<open>time.sleep\<close>, an uncaught traceback), the server's reply to the GET, its reply
    to the n-th POST, and the number of POSTs sent. Python exceptions are
    values (\<open>pyexc\<close>, results in \<open>pyexc + 'a\<close>). \<open>appends P w w'\<close> says that
    \<open>w'\<close> extends the trace of \<open>w\<close> by effects satisfying \<open>P\<close>, with the POST
    counter advanced by the POSTs among them; \<open>throttled\<close> says every POST of a
    trace is followed by a print and \<open>time.sleep(1)\<close>.
  \<^item> \<open>Config\<close>: \<open>load_config\<close> (lines 8-13), the URL and the header dicts.
  \<^item> \<open>Fetcher\<close>: \<open>get_existing_rules\<close> with every branch of lines 33-55, the
    \<open>items\<close> check (\<open>rule_items\<close>) and the dict comprehension (\<open>index_items\<close>,
    with its \<open>KeyError\<close>/\<open>TypeError\<close>); \<open>index_spec\<close> is the abstract index and
    \<open>index_items_refines\<close> the refinement of the comprehension to it.
  \<^item> \<open>Creator\<close>: \<open>parse_date\<close> (lines 61-65), \<open>rule_json\<close> (67-125),
    \<open>post_result\<close> (133-142) and \<open>create_rule\<close> (57-145); on the specification
    side \<open>format_date\<close> (the \<open>YYYY-MM-DD\<close> form), \<open>rule_target\<close> (reads the name
    and date back from a rule JSON) and \<open>fresh_post\<close> (an effect that is not a
    POST, or a POST of the rule of a name the index lacks).
  \<^item> \<open>Reader\<close>: how the file is read (lines 151-162): the outcome of opening
    and tokenizing it (\<open>csv_source\<close>), the documented header
    (\<open>expected_headers\<close>), the \<open>DictReader\<close> row dict (\<open>dict_row\<close>, with
    \<open>restval = None\<close> for short rows), the four lookups (\<open>row_fields\<close>), and
    \<open>next(reader)\<close> (\<open>dict_reader_next\<close>), whose \<open>while row == []\<close> loop is
    kept as a loop with \<open>while_option\<close> (\<open>skip_blank_guard\<close>,
    \<open>skip_blank_step\<close>). Lemmas: the loop returns, and returns the first
    non-blank row (\<open>skip_blank_while\<close>: the \<open>while_option\<close> is \<open>Some\<close> of
    dropping the blank rows), and each call shortens the input; every header name is a key of every row
    dict (\<open>dict_row_has_key\<close>).
  \<^item> \<open>Driver\<close>: the main script (lines 147-183): one row (\<open>process_row\<close>),
    the loop as the code runs it (\<open>reader_loop\<close>, a \<open>function\<close> over
    \<open>next(reader)\<close> whose termination measure is the number of rows left) and
    its structural form (\<open>process_rows\<close>, blank rows skipped), shown equal;
    the \<open>try\<close> block (\<open>run_csv\<close>) and the script with its handlers and exit
    status (\<open>main\<close>). The generic lemmas \<open>process_row_preserves\<close>,
    \<open>process_rows_preserves\<close> and \<open>run_csv_preserves\<close> carry any preorder on
    worlds that holds for a print and for \<open>create_rule\<close> through the loop.
  \<^item> \<open>Rows\<close>: an abstract reading of the row loop. A row is read by position
    (\<open>field_at\<close>) into the actions it asks for (\<open>row_actions\<close>: create a rule
    for a date, or print a skip line), and the loop is the sequential run of
    the actions of the non-blank rows (\<open>run_actions\<close>). \<open>reader_loop_refines\<close>
    shows that the \<open>DictReader\<close> loop implements this reading;
    \<open>requested_posts\<close> lists the rule JSONs such a run should POST and
    \<open>run_actions_posts\<close> shows it does when no POST reply makes it raise
    (\<open>reply_ok\<close>).
  \<^item> \<open>Spec2Isabelle\<close> (this theory): the properties of the whole script.

  \<^bold>\<open>What is shown.\<close> No rule whose name is in the fetched index is ever
  POSTed, and every POST carries the exact rule JSON of its name and date
  (\<open>main_never_resubmits\<close>); there are at most two POSTs per data row
  (\<open>main_post_bound\<close>); re-running the script once the index holds every
  requested name POSTs nothing (\<open>main_rerun_no_posts\<close>); no \<open>KeyError\<close> can come from the row lookups once the
  header check has passed (\<open>Driver.run_csv_no_key_error\<close>); when the server's replies do not make the
  script raise, it exits with status 0 and POSTs exactly the requested rules,
  in order (\<open>main_posts_requested\<close>); the GET is the first request and the header check
  comes after it (\<open>main_get_first\<close>, \<open>main_header_missing\<close>, a divergence from
  the spec); the exit status is 0 exactly when the \<open>try\<close> block
  completes (\<open>main_exit_zero_iff\<close>); each exit path (missing variable, missing
  or empty file, bad header, exception while fetching) is stated exactly; a
  successful run
  keeps the rate limit (\<open>main_throttled\<close>); rows give the rule names of the spec
  (\<open>Driver.process_row_both_dates\<close>, \<open>Driver.process_row_first_only\<close>); every
  branch of \<open>get_existing_rules\<close> and \<open>create_rule\<close>, errors included; the date
  round trip (\<open>Creator.parse_date_format_date\<close>), and the exact set of strings
  the date check accepts (\<open>Creator.parse_date_iff\<close>).

  \<^bold>\<open>Bounds and fuel.\<close> There is no fuel. The loops over items, characters
  and actions are structural recursions over finite lists. The row loop is kept
  in the shape the code runs it: \<open>reader_loop\<close> is a \<open>function\<close> whose
  termination proof uses the number of rows left, which every \<open>next(reader)\<close>
  decreases, and the blank-row loop inside \<open>next\<close> is a \<open>while_option\<close> that
  \<open>Reader.skip_blank_while\<close> shows returns \<open>Some\<close> on every input, by
  induction on the rows left. Integers are Python's unbounded
  \<open>int\<close>, modelled as \<open>int\<close>; the only bound is CPython's 4300-digit limit of
  \<open>int()\<close>, which is part of \<open>unsigned_int\<close>.

  \<^bold>\<open>Not modelled.\<close> The \<open>csv\<close> tokenizer and file decoding (the model takes
  the rows it yields and a read error as input), the HTTP transport and the
  JSON decoder (a reply carries its status, text and decoding outcome), JSON
  floats, characters beyond Latin-1 in \<open>repr\<close>, and the server itself, whose
  answers are arbitrary inputs of the world.
\<close>

section \<open>Example inputs\<close>

abbreviation example_env :: env where
  "example_env \<equiv> [''SMARTTHINGS_TOKEN'' \<mapsto> ''tok'', ''DEVICE_ID'' \<mapsto> ''dev'',
                   ''LOCATION_ID'' \<mapsto> ''loc'', ''VIRTUAL_SWITCH_ID'' \<mapsto> ''vsw'']"

abbreviation example_config :: config where
  "example_config \<equiv> \<lparr>token = ''tok'', device_id = ''dev'', location_id = ''loc'', virtual_switch_id = ''vsw''\<rparr>"

abbreviation example_world :: "http_reply \<Rightarrow> http_reply \<Rightarrow> world" where
  "example_world g p \<equiv> \<lparr>out = [], get_reply = g, post_reply = (\<lambda>_. p), posts = 0\<rparr>"

abbreviation created :: http_reply where
  "created \<equiv> HttpResponse 201 ''{}'' (Inr (JObj [(''id'', JStr ''r9'')]))"

abbreviation listing :: "(string \<times> string) list \<Rightarrow> http_reply" where
  "listing rs \<equiv> HttpResponse 200 ''{}''
     (Inr (JObj [(''items'', JList (map (\<lambda>(n, i). JObj [(''name'', JStr n), (''id'', JStr i)]) rs))]))"

text \<open>The world after a GET that raised \<open>RequestException\<close> (here a timeout).\<close>

abbreviation after_timeout :: world where
  "after_timeout \<equiv>
     (example_world (HttpError ''timeout'') created)\<lparr>out :=
        [HttpGet (api_url example_config) (get_headers example_config),
         Print ''Warning: Error fetching existing rules: timeout'']\<rparr>"

text \<open>The example environment loads, and a timed-out GET leaves an empty index.\<close>

lemma example_env_loads: "load_config example_env = Some example_config"
  by (simp add: load_config_def)

lemma example_fetch_timeout:
  "get_existing_rules example_config (example_world (HttpError ''timeout'') created) =
     (Inr Map.empty, after_timeout)"
  by (simp add: get_existing_rules_def trace_simps)

section \<open>Properties of the whole script\<close>

text \<open>
  C1: a rule name that is in the index fetched at the start is never POSTed:
  every effect the script appends after the configuration is loaded and the
  index is fetched is either not a POST, or a POST to the rules URL with the
  POST headers and the exact body of a rule whose name the index lacks.
\<close>

theorem main_never_resubmits:
  assumes "load_config env = Some cfg" and "fst (get_existing_rules cfg w) = Inr idx"
  shows "\<exists>es. out (snd (main env src w)) = out w @ es \<and> list_all (fresh_post cfg idx) es"
  using appends_out [OF main_appends [OF assms]] by (auto simp: list_all_iff)

theorem main_never_resubmits_witness:
  "load_config example_env = Some example_config \<and>
   fst (get_existing_rules example_config (example_world (listing [(''Sukkos First Days (5785)'', ''r1'')]) created)) =
     Inr [''Sukkos First Days (5785)'' \<mapsto> JStr ''r1''] \<and>
   (\<exists>es. out (snd (main example_env
                       (CsvRows [expected_headers, [''5785'', ''Sukkos'', ''2024-10-17'', ''2024-10-24'']] None)
                       (example_world (listing [(''Sukkos First Days (5785)'', ''r1'')]) created))) = [] @ es \<and>
         list_all (fresh_post example_config [''Sukkos First Days (5785)'' \<mapsto> JStr ''r1'']) es)"
proof -
  have h1: "load_config example_env = Some example_config" by (rule example_env_loads)
  have h2: "fst (get_existing_rules example_config (example_world (listing [(''Sukkos First Days (5785)'', ''r1'')]) created)) =
     Inr [''Sukkos First Days (5785)'' \<mapsto> JStr ''r1'']"
    by (simp add: get_existing_rules_def requests_get_def Let_def obj_get_def)
  show ?thesis
    using h1 h2 main_never_resubmits [OF h1 h2, where src = "CsvRows [expected_headers, [''5785'', ''Sukkos'', ''2024-10-17'', ''2024-10-24'']] None"]
    by simp
qed

text \<open>
  C10: when the configuration is missing the script prints the configuration
  error and exits with status 1, before any request.
\<close>

theorem main_config_error:
  "load_config env = None \<Longrightarrow> main env src w = (1, py_print config_error_msg w)"
  by (simp add: main_def)

theorem main_config_error_witness:
  "load_config Map.empty = None \<and>
   main Map.empty CsvNotFound (example_world created created) =
     (1, py_print config_error_msg (example_world created created))"
proof -
  have h: "load_config Map.empty = None" by (simp add: load_config_def)
  show ?thesis using main_config_error [OF h] h by simp
qed

text \<open>
  C9: once configured, the first effect of the script is the GET of the rule
  list, whatever the CSV file holds: the header check of the file comes after
  this request.
\<close>

theorem main_get_first:
  assumes "load_config env = Some cfg"
  shows "\<exists>es. out (snd (main env src w)) = out w @ HttpGet (api_url cfg) (get_headers cfg) # es"
proof -
  obtain r w1 where g: "get_existing_rules cfg w = (r, w1)" by fastforce
  from get_existing_rules_trace [OF g] obtain ps where
    "out w1 = out w @ HttpGet (api_url cfg) (get_headers cfg) # map Print ps" by blast
  with main_extends [OF assms g] show ?thesis by auto
qed

theorem main_get_first_witness:
  "load_config example_env = Some example_config \<and>
   (\<exists>es. out (snd (main example_env (CsvRows [[''Year'']] None) (example_world created created))) =
         [] @ HttpGet (api_url example_config) (get_headers example_config) # es)"
proof -
  have h: "load_config example_env = Some example_config" by (rule example_env_loads)
  show ?thesis using main_get_first [OF h, where src = "CsvRows [[''Year'']] None" and w = "example_world created created"] h
    by simp
qed

text \<open>
  C8: a CSV header without one of the four columns makes the script print the
  header error and exit with status 1 right after fetching the index; no rule
  is created, but the GET has been sent.
\<close>

theorem main_header_missing:
  assumes "load_config env = Some cfg" and "get_existing_rules cfg w = (Inr idx, w1)"
    and "\<not> set expected_headers \<subseteq> set fns"
  shows "main env (CsvRows (fns # rows) err) w = (1, py_print headers_error_msg w1)"
  using assms by (simp add: main_def run_csv_def)

theorem main_header_missing_witness:
  "load_config example_env = Some example_config \<and>
   get_existing_rules example_config (example_world (HttpError ''timeout'') created) =
     (Inr Map.empty,
      (example_world (HttpError ''timeout'') created)\<lparr>out :=
         [HttpGet (api_url example_config) (get_headers example_config),
          Print ''Warning: Error fetching existing rules: timeout'']\<rparr>) \<and>
   \<not> set expected_headers \<subseteq> set [''Year'', ''Holiday''] \<and>
   main example_env (CsvRows [[''Year'', ''Holiday''], [''5785'', ''Sukkos'']] None)
        (example_world (HttpError ''timeout'') created) =
     (1, py_print headers_error_msg
           ((example_world (HttpError ''timeout'') created)\<lparr>out :=
              [HttpGet (api_url example_config) (get_headers example_config),
               Print ''Warning: Error fetching existing rules: timeout'']\<rparr>))"
proof -
  have h1: "load_config example_env = Some example_config" by (rule example_env_loads)
  have h2: "get_existing_rules example_config (example_world (HttpError ''timeout'') created) =
     (Inr Map.empty,
      (example_world (HttpError ''timeout'') created)\<lparr>out :=
         [HttpGet (api_url example_config) (get_headers example_config),
          Print ''Warning: Error fetching existing rules: timeout'']\<rparr>)"
    by (simp add: get_existing_rules_def trace_simps)
  have h3: "\<not> set expected_headers \<subseteq> set [''Year'', ''Holiday'']" by (simp add: expected_headers_def)
  show ?thesis using main_header_missing [OF h1 h2 h3, where rows = "[[''5785'', ''Sukkos'']]" and err = None] h1 h2 h3
    by simp
qed

text \<open>
  C11: a run that exits with status 0 keeps the rate limit: every POST it sends
  is followed by the printed outcome and a one-second sleep.
\<close>

theorem main_throttled:
  assumes "fst (main env src w) = 0" and "throttled (out w)"
  shows "throttled (out (snd (main env src w)))"
proof -
  obtain cfg where cfg: "load_config env = Some cfg"
    using assms(1) by (cases "load_config env") (simp_all add: main_def)
  obtain r w1 where g: "get_existing_rules cfg w = (r, w1)" by fastforce
  obtain idx where idx: "r = Inr idx"
    using assms(1) cfg g by (cases r) (simp_all add: main_def)
  obtain r' w2 where rc: "run_csv cfg idx src w1 = (r', w2)" by fastforce
  have r': "r' = Inr ()" and w2: "snd (main env src w) = w2"
    using assms(1) cfg g idx rc
    by (auto simp: main_def dest: run_csv_SystemExit split: sum.splits pyexc.splits if_splits)
  have "throttled_ext w w1" using g by (rule get_existing_rules_throttled)
  also have "throttled_ext w1 w2" using rc r' run_csv_throttled by blast
  finally show ?thesis using assms(2) w2 by (simp add: throttled_ext_out)
qed

theorem main_throttled_witness:
  "fst (main example_env
          (CsvRows [expected_headers, [''5785'', ''Sukkos'', ''2024-10-17'', ''2024-10-24'']] None)
          (example_world (listing []) created)) = 0 \<and>
   throttled [] \<and>
   throttled (out (snd (main example_env
          (CsvRows [expected_headers, [''5785'', ''Sukkos'', ''2024-10-17'', ''2024-10-24'']] None)
          (example_world (listing []) created))))"
proof -
  have h1: "fst (main example_env
          (CsvRows [expected_headers, [''5785'', ''Sukkos'', ''2024-10-17'', ''2024-10-24'']] None)
          (example_world (listing []) created)) = 0"
    by code_simp
  have h2: "throttled (out (example_world (listing []) created))" by simp
  show ?thesis using main_throttled [OF h1 h2] h1 by simp
qed

text \<open>
  The whole script on a small file: the index is empty, the Sukkos row
  gives the "First Days" and the "Last Day" rule, the blank row is skipped and
  the short Shavuos row gives one rule; the run exits with status 0.
\<close>

text \<open>
  C2: when the file has the documented header and no read error, and no
  200/201 reply to a POST has a non-object body, the script exits with status
  0 and POSTs, in order, exactly the rule JSON of every "create" action of its
  non-blank rows whose name is not in the fetched index and whose date parses.
\<close>

theorem main_posts_requested:
  assumes cfg: "load_config env = Some cfg" and idx: "fst (get_existing_rules cfg w) = Inr idx"
    and ok: "\<forall>k. reply_ok (post_reply w k)"
  shows "fst (main env (CsvRows (expected_headers # rows) None) w) = 0 \<and>
         posts_of (out (snd (main env (CsvRows (expected_headers # rows) None) w))) =
           posts_of (out w) @ requested_posts cfg idx (concat (map row_actions (filter (\<lambda>r. r \<noteq> []) rows)))"
proof -
  obtain w1 where g: "get_existing_rules cfg w = (Inr idx, w1)"
    using idx by (cases "get_existing_rules cfg w") auto
  note w1 = get_existing_rules_posts_of [OF g]
  let ?as = "concat (map row_actions (filter (\<lambda>r. r \<noteq> []) rows))"
  have ok1: "\<forall>k. reply_ok (post_reply w1 k)" using ok w1 by simp
  have run: "run_csv cfg idx (CsvRows (expected_headers # rows) None) w1 = run_actions cfg idx ?as w1"
    by (simp add: run_csv_def process_rows_actions split: prod.split sum.split)
  from run_actions_posts [OF ok1, of cfg idx ?as] obtain w2 where
    r2: "run_actions cfg idx ?as w1 = (Inr (), w2)"
    and p2: "posts_of (out w2) = posts_of (out w1) @ requested_posts cfg idx ?as"
    by (cases "run_actions cfg idx ?as w1") auto
  show ?thesis using cfg g run r2 p2 w1 by (simp add: main_def)
qed

theorem main_posts_requested_witness:
  "load_config example_env = Some example_config \<and>
   fst (get_existing_rules example_config (example_world (listing [(''Sukkos First Days (5785)'', ''r1'')]) created)) =
     Inr [''Sukkos First Days (5785)'' \<mapsto> JStr ''r1''] \<and>
   (\<forall>k. reply_ok (post_reply (example_world (listing [(''Sukkos First Days (5785)'', ''r1'')]) created) k)) \<and>
   fst (main example_env (CsvRows (expected_headers # [[''5785'', ''Sukkos'', ''2024-10-17'', ''2024-10-24'']]) None)
          (example_world (listing [(''Sukkos First Days (5785)'', ''r1'')]) created)) = 0 \<and>
   posts_of (out (snd (main example_env (CsvRows (expected_headers # [[''5785'', ''Sukkos'', ''2024-10-17'', ''2024-10-24'']]) None)
          (example_world (listing [(''Sukkos First Days (5785)'', ''r1'')]) created)))) =
     posts_of [] @ requested_posts example_config [''Sukkos First Days (5785)'' \<mapsto> JStr ''r1'']
       (concat (map row_actions (filter (\<lambda>r. r \<noteq> []) [[''5785'', ''Sukkos'', ''2024-10-17'', ''2024-10-24'']])))"
proof -
  have h1: "load_config example_env = Some example_config" by (rule example_env_loads)
  have h2: "fst (get_existing_rules example_config (example_world (listing [(''Sukkos First Days (5785)'', ''r1'')]) created)) =
     Inr [''Sukkos First Days (5785)'' \<mapsto> JStr ''r1'']"
    by (simp add: get_existing_rules_def requests_get_def Let_def obj_get_def)
  have h3: "\<forall>k. reply_ok (post_reply (example_world (listing [(''Sukkos First Days (5785)'', ''r1'')]) created) k)"
    by simp
  show ?thesis
    using main_posts_requested [OF h1 h2 h3, where rows = "[[''5785'', ''Sukkos'', ''2024-10-17'', ''2024-10-24'']]"] h1 h2 h3
    by simp
qed


text \<open>
  C18: a missing CSV file is reported with its name and ends the script with
  status 1, after the GET.
\<close>

theorem main_file_not_found:
  assumes "load_config env = Some cfg" and "get_existing_rules cfg w = (Inr idx, w1)"
  shows "main env CsvNotFound w = (1, py_print (''Error: CSV file '' @ quoted CSV_FILE @ '' not found.'') w1)"
  using assms by (simp add: main_def run_csv_def)

theorem main_file_not_found_witness:
  "load_config example_env = Some example_config \<and>
   get_existing_rules example_config (example_world (HttpError ''timeout'') created) = (Inr Map.empty, after_timeout) \<and>
   main example_env CsvNotFound (example_world (HttpError ''timeout'') created) =
     (1, py_print (''Error: CSV file '' @ quoted CSV_FILE @ '' not found.'') after_timeout)"
proof -
  have h1: "load_config example_env = Some example_config" by (rule example_env_loads)
  have h2: "get_existing_rules example_config (example_world (HttpError ''timeout'') created) =
              (Inr Map.empty, after_timeout)"
    by (rule example_fetch_timeout)
  show ?thesis using main_file_not_found [OF h1 h2] h1 h2 by simp
qed

text \<open>
  C19: an empty CSV file has no header (\<open>reader.fieldnames\<close> is \<open>None\<close>), so
  \<open>issubset(None)\<close> raises \<open>TypeError\<close>, which the generic handler reports as
  an unexpected error with status 1.
\<close>

theorem main_empty_file:
  assumes "load_config env = Some cfg" and "get_existing_rules cfg w = (Inr idx, w1)"
  shows "main env (CsvRows [] None) w =
           (1, py_print (''Unexpected error: '' @ quoted ''NoneType'' @ '' object is not iterable'') w1)"
  using assms by (simp add: main_def run_csv_def)

theorem main_empty_file_witness:
  "load_config example_env = Some example_config \<and>
   get_existing_rules example_config (example_world (HttpError ''timeout'') created) = (Inr Map.empty, after_timeout) \<and>
   main example_env (CsvRows [] None) (example_world (HttpError ''timeout'') created) =
     (1, py_print (''Unexpected error: '' @ quoted ''NoneType'' @ '' object is not iterable'') after_timeout)"
proof -
  have h1: "load_config example_env = Some example_config" by (rule example_env_loads)
  have h2: "get_existing_rules example_config (example_world (HttpError ''timeout'') created) =
              (Inr Map.empty, after_timeout)"
    by (rule example_fetch_timeout)
  show ?thesis using main_empty_file [OF h1 h2] h1 h2 by simp
qed

text \<open>
  C20: an exception raised while building the index (a malformed item) is not
  caught: the script ends with a traceback and status 1 and never opens the
  CSV file.
\<close>

theorem main_fetch_raises:
  assumes "load_config env = Some cfg" and "get_existing_rules cfg w = (Inl e, w1)"
  shows "main env src w = (1, emit (Traceback e) w1)"
  using assms by (simp add: main_def)

theorem main_fetch_raises_witness:
  "load_config example_env = Some example_config \<and>
   get_existing_rules example_config (example_world (HttpResponse 200 ''{}'' (Inr (JObj [(''items'', JList [JObj [(''id'', JStr ''r1'')]])]))) created) =
     (Inl (PyError KeyError (py_repr_str ''name'')), ((example_world (HttpResponse 200 ''{}'' (Inr (JObj [(''items'', JList [JObj [(''id'', JStr ''r1'')]])]))) created)\<lparr>out := [HttpGet (api_url example_config) (get_headers example_config), Print (''Status Code: '' @ py_str_int 200), Print ''Response Content: {}'']\<rparr>)) \<and>
   main example_env CsvNotFound (example_world (HttpResponse 200 ''{}'' (Inr (JObj [(''items'', JList [JObj [(''id'', JStr ''r1'')]])]))) created) =
     (1, emit (Traceback (PyError KeyError (py_repr_str ''name''))) ((example_world (HttpResponse 200 ''{}'' (Inr (JObj [(''items'', JList [JObj [(''id'', JStr ''r1'')]])]))) created)\<lparr>out := [HttpGet (api_url example_config) (get_headers example_config), Print (''Status Code: '' @ py_str_int 200), Print ''Response Content: {}'']\<rparr>))"
proof -
  have h1: "load_config example_env = Some example_config" by (rule example_env_loads)
  have h2: "get_existing_rules example_config (example_world (HttpResponse 200 ''{}'' (Inr (JObj [(''items'', JList [JObj [(''id'', JStr ''r1'')]])]))) created) =
              (Inl (PyError KeyError (py_repr_str ''name'')), ((example_world (HttpResponse 200 ''{}'' (Inr (JObj [(''items'', JList [JObj [(''id'', JStr ''r1'')]])]))) created)\<lparr>out := [HttpGet (api_url example_config) (get_headers example_config), Print (''Status Code: '' @ py_str_int 200), Print ''Response Content: {}'']\<rparr>))"
    by (simp add: get_existing_rules_def trace_simps obj_get_def)
  show ?thesis using main_fetch_raises [OF h1 h2] h1 h2 by simp
qed

text \<open>
  C14: the script sends at most two POSTs per data row of the file (the "first
  days" and the "last day" rule), whatever the server answers.
\<close>

theorem main_post_bound:
  "\<exists>es. out (snd (main env (CsvRows rows err) w)) = out w @ es \<and> post_count es \<le> 2 * (length rows - 1)"
proof -
  have "posts_within (2 * (length rows - 1)) w (snd (main env (CsvRows rows err) w))"
  proof (cases "load_config env")
    case None
    then show ?thesis by (simp add: main_def posts_within_print)
  next
    case (Some cfg)
    obtain r w1 where g: "get_existing_rules cfg w = (r, w1)" by fastforce
    have g0: "posts_within 0 w w1"
      by (rule appends_posts_within, rule get_existing_rules_appends [OF g]) simp_all
    show ?thesis
    proof (cases r)
      case (Inl e)
      have "posts_within 0 w1 (emit (Traceback e) w1)" by (rule posts_within_emit) simp
      from posts_within_trans [OF g0 this] Some g Inl show ?thesis
        by (auto simp: main_def intro: posts_within_mono)
    next
      case (Inr idx)
      obtain r' w2 where rc: "run_csv cfg idx (CsvRows rows err) w1 = (r', w2)" by fastforce
      have "posts_within (0 + 2 * (length rows - 1)) w w2"
        by (rule posts_within_trans [OF g0 run_csv_posts_within [OF rc]])
      moreover have "posts_within 0 w2 (snd (main env (CsvRows rows err) w))"
        using Some g Inr rc by (auto simp: main_def split: sum.splits pyexc.splits)
      ultimately show ?thesis using posts_within_trans by fastforce
    qed
  qed
  then show ?thesis by (simp add: posts_within_def)
qed

text \<open>
  C29: re-running the script is idempotent: when the fetched index already
  holds every rule name the file's rows ask for, the script POSTs nothing and
  exits with status 0 (each name is reported as existing and skipped).
\<close>

theorem main_rerun_no_posts:
  assumes cfg: "load_config env = Some cfg" and idx: "fst (get_existing_rules cfg w) = Inr idx"
    and known: "list_all (\<lambda>n. idx n \<noteq> None)
                  (action_names (concat (map row_actions (filter (\<lambda>r. r \<noteq> []) rows))))"
  shows "fst (main env (CsvRows (expected_headers # rows) None) w) = 0 \<and>
         (\<exists>es. out (snd (main env (CsvRows (expected_headers # rows) None) w)) = out w @ es \<and>
               post_count es = 0)"
proof -
  obtain w1 where g: "get_existing_rules cfg w = (Inr idx, w1)"
    using idx by (cases "get_existing_rules cfg w") auto
  have g0: "posts_within 0 w w1"
    by (rule appends_posts_within, rule get_existing_rules_appends [OF g]) simp_all
  let ?as = "concat (map row_actions (filter (\<lambda>r. r \<noteq> []) rows))"
  obtain w2 where r2: "run_actions cfg idx ?as w1 = (Inr (), w2)" and p2: "posts_within 0 w1 w2"
    using run_actions_known [OF known] by blast
  have run: "run_csv cfg idx (CsvRows (expected_headers # rows) None) w1 = (Inr (), w2)"
    using r2 by (simp add: run_csv_def process_rows_actions)
  have "posts_within (0 + 0) w w2" by (rule posts_within_trans [OF g0 p2])
  with cfg g run show ?thesis by (simp add: main_def posts_within_def)
qed

theorem main_rerun_no_posts_witness:
  "load_config example_env = Some example_config \<and>
   fst (get_existing_rules example_config
          (example_world (listing [(''Sukkos First Days (5785)'', ''r1''), (''Sukkos Last Day (5785)'', ''r2'')]) created)) =
     Inr [''Sukkos First Days (5785)'' \<mapsto> JStr ''r1'', ''Sukkos Last Day (5785)'' \<mapsto> JStr ''r2''] \<and>
   list_all (\<lambda>n. [''Sukkos First Days (5785)'' \<mapsto> JStr ''r1'', ''Sukkos Last Day (5785)'' \<mapsto> JStr ''r2''] n \<noteq> None)
     (action_names (concat (map row_actions (filter (\<lambda>r. r \<noteq> []) [[''5785'', ''Sukkos'', ''2024-10-17'', ''2024-10-24'']])))) \<and>
   fst (main example_env (CsvRows (expected_headers # [[''5785'', ''Sukkos'', ''2024-10-17'', ''2024-10-24'']]) None)
          (example_world (listing [(''Sukkos First Days (5785)'', ''r1''), (''Sukkos Last Day (5785)'', ''r2'')]) created)) = 0 \<and>
   (\<exists>es. out (snd (main example_env (CsvRows (expected_headers # [[''5785'', ''Sukkos'', ''2024-10-17'', ''2024-10-24'']]) None)
          (example_world (listing [(''Sukkos First Days (5785)'', ''r1''), (''Sukkos Last Day (5785)'', ''r2'')]) created))) = [] @ es \<and>
         post_count es = 0)"
proof -
  have h1: "load_config example_env = Some example_config" by (rule example_env_loads)
  have h2: "fst (get_existing_rules example_config
          (example_world (listing [(''Sukkos First Days (5785)'', ''r1''), (''Sukkos Last Day (5785)'', ''r2'')]) created)) =
     Inr [''Sukkos First Days (5785)'' \<mapsto> JStr ''r1'', ''Sukkos Last Day (5785)'' \<mapsto> JStr ''r2'']"
    by (simp add: get_existing_rules_def requests_get_def Let_def obj_get_def)
  have h3: "list_all (\<lambda>n. [''Sukkos First Days (5785)'' \<mapsto> JStr ''r1'', ''Sukkos Last Day (5785)'' \<mapsto> JStr ''r2''] n \<noteq> None)
     (action_names (concat (map row_actions (filter (\<lambda>r. r \<noteq> []) [[''5785'', ''Sukkos'', ''2024-10-17'', ''2024-10-24'']]))))"
    by (simp add: row_actions_def field_actions_def first_days_name_def last_day_name_def py_truthy_def field_at_def)
  show ?thesis
    using main_rerun_no_posts [OF h1 h2 h3] h1 h2 h3 by simp
qed

end
